theory Spec2Isabelle
  imports Complex_Main "HOL-Library.Word" "HOL-Library.AList"
begin

section \<open>Text\<close>

text \<open>
  A JavaScript string is a sequence of 16-bit code units. The keyword tables of the
  source hold code units above 255 (the emoji entries), so the model keeps the code
  units themselves; \<open>js\<close> turns an ASCII literal into its code units.
\<close>

type_synonym jsstring = "16 word list"

definition js :: "string \<Rightarrow> jsstring" where
  "js s = map of_char s"

text \<open>\<open>x || ''\<close> for a string that may be undefined.\<close>

definition orEmpty :: "jsstring option \<Rightarrow> jsstring" where
  "orEmpty x = (case x of None \<Rightarrow> [] | Some s \<Rightarrow> s)"

text \<open>\<open>x || d\<close> for a string that may be undefined: the empty string is falsy too.\<close>

definition orElse :: "jsstring option \<Rightarrow> jsstring \<Rightarrow> jsstring" where
  "orElse x d = (case x of None \<Rightarrow> d | Some s \<Rightarrow> if s = [] then d else s)"

text \<open>The decimal text of an integer, as a template literal writes a number.\<close>

fun digits :: "nat \<Rightarrow> jsstring" where
  "digits n = (if n < 10 then [of_nat (48 + n)] else digits (n div 10) @ [of_nat (48 + n mod 10)])"

declare digits.simps [simp del]

definition numberText :: "int \<Rightarrow> jsstring" where
  "numberText i = (if i < 0 then js ''-'' @ digits (nat (- i)) else digits (nat i))"

section \<open>Data model\<close>

text \<open>
  The documents follow the schema of \<open>AiBotDbSchema.js\<close>. One element of
  \<open>conversationHistory\<close> has a message, a response and a timestamp. Every field can
  be missing in a stored document; the source guards each read with \<open>||\<close>. A
  timestamp is a Date, kept as its time value in milliseconds.
\<close>

record turn =
  message :: "jsstring option"
  response :: "jsstring option"
  timestamp :: "int option"

type_synonym preferences = "(jsstring \<times> jsstring list) list"

record userContext =
  userId :: jsstring
  username :: "jsstring option"
  conversationHistory :: "turn list option"
  mood :: "jsstring option"
  preferences :: "preferences option"
  contextTokens :: "jsstring list option"
  lastActive :: "int option"

record globalContext =
  botPersonality :: "jsstring option"
  recentGlobalTopics :: "jsstring list option"
  lastUpdate :: "int option"

text \<open>
  What the program takes from outside the repository during one request: the readings
  of the clock (\<open>clockAt k\<close> is what the k-th call of \<open>Date.now()\<close> or
  \<open>new Date()\<close> returns), the text the runtime gives a Date inside a template
  literal, and the measure that the TF-IDF index of the \<open>natural\<close> package hands
  to the callback of \<open>tfidfs\<close> for document \<open>i\<close> (document 0 is the
  current message, document \<open>i\<close> is turn \<open>i - 1\<close>).
\<close>

record runtime =
  clockAt :: "nat \<Rightarrow> int"
  dateText :: "int \<Rightarrow> jsstring"
  tfidfMeasure :: "nat \<Rightarrow> rat"

section \<open>Merging recent and relevant history\<close>

text \<open>
  \<open>`${conv.message || ''}-${conv.timestamp || Date.now()}`\<close>. A stored Date is
  truthy, so the clock is read only for a turn without a timestamp; the second
  component is the number of clock readings made so far.
\<close>

definition convId :: "runtime \<Rightarrow> nat \<Rightarrow> turn \<Rightarrow> jsstring \<times> nat" where
  "convId rt k conv =
     (case timestamp conv of
        Some t \<Rightarrow> (orEmpty (message conv) @ js ''-'' @ dateText rt t, k)
      | None \<Rightarrow> (orEmpty (message conv) @ js ''-'' @ numberText (clockAt rt k), Suc k))"

text \<open>\<open>xs.slice(-n)\<close> and \<open>xs.slice(0, n)\<close>.\<close>

definition sliceLast :: "nat \<Rightarrow> 'a list \<Rightarrow> 'a list" where
  "sliceLast n xs = drop (length xs - n) xs"

definition sliceFirst :: "nat \<Rightarrow> 'a list \<Rightarrow> 'a list" where
  "sliceFirst n xs = take n xs"

text \<open>The first \<open>forEach\<close>: the identifiers of the recent turns go into the set.\<close>

fun markRecent :: "runtime \<Rightarrow> turn list \<Rightarrow> nat \<times> jsstring set \<Rightarrow> nat \<times> jsstring set" where
  "markRecent rt [] st = st"
| "markRecent rt (conv # convs) (k, included) =
     (case convId rt k conv of
        (cid, k') \<Rightarrow> markRecent rt convs (k', insert cid included))"

text \<open>
  The second \<open>forEach\<close>: a relevant turn whose identifier is not in the set yet is
  pushed onto \<open>recentHistory\<close> itself. An undefined entry is skipped.
\<close>

fun addRelevant ::
  "runtime \<Rightarrow> turn option list \<Rightarrow> nat \<times> jsstring set \<times> turn list \<Rightarrow> nat \<times> jsstring set \<times> turn list" where
  "addRelevant rt [] st = st"
| "addRelevant rt (None # convs) st = addRelevant rt convs st"
| "addRelevant rt (Some conv # convs) (k, included, recentHistory) =
     (case convId rt k conv of
        (cid, k') \<Rightarrow>
          if cid \<in> included then addRelevant rt convs (k', included, recentHistory)
          else addRelevant rt convs (k', insert cid included, recentHistory @ [conv]))"

text \<open>\<open>conversationMap\<close>: turn \<open>idx\<close> is stored under key \<open>idx + 1\<close>.\<close>

definition conversationMap :: "turn list \<Rightarrow> nat \<Rightarrow> turn option" where
  "conversationMap history i =
     (if 0 < i \<and> i \<le> length history then Some (history ! (i - 1)) else None)"

text \<open>
  The callback of \<open>tfidfs\<close> runs once per document, \<open>0 .. length history\<close>, and
  skips document 0. An entry is (index, conversation, score).
\<close>

definition similarityScores :: "runtime \<Rightarrow> turn list \<Rightarrow> (nat \<times> turn option \<times> rat) list" where
  "similarityScores rt history =
     concat (map (\<lambda>i. if 0 < i then [(i - 1, conversationMap history i, tfidfMeasure rt i)] else [])
       [0 ..< Suc (length history)])"

text \<open>
  \<open>.sort((a, b) => b.score - a.score).slice(0, 8).map(item => item.conversation)\<close>.
  The sort of the runtime is stable; so is \<open>sort_key\<close>.
\<close>

definition topRelevantByScore :: "runtime \<Rightarrow> turn list \<Rightarrow> turn option list" where
  "topRelevantByScore rt history =
     map (\<lambda>(i, conv, score). conv)
       (sliceFirst 8 (sort_key (\<lambda>(i, conv, score). - score) (similarityScores rt history)))"

text \<open>\<open>new Date(a.timestamp || 0)\<close>: the time value the final sort compares.\<close>

definition sortTime :: "turn \<Rightarrow> int" where
  "sortTime conv = (case timestamp conv of Some t \<Rightarrow> t | None \<Rightarrow> 0)"

text \<open>
  The block under \<open>if (conversationHistory.length > 0)\<close>, from the clock count
  \<open>k\<close>: the array \<open>recentHistory\<close> as the block leaves it, \<open>relevantHistory\<close>,
  and the clock count afterwards.
\<close>

definition mergeHistory :: "runtime \<Rightarrow> nat \<Rightarrow> turn list \<Rightarrow> turn list \<times> turn list \<times> nat" where
  "mergeHistory rt k history =
     (let recentHistory = sliceLast 5 history in
      if 0 < length history then
        (case markRecent rt recentHistory (k, {}) of
           (k1, included) \<Rightarrow>
             (case addRelevant rt (topRelevantByScore rt history) (k1, included, recentHistory) of
                (k2, included2, recentHistory2) \<Rightarrow>
                  (recentHistory2, sliceFirst 10 (sort_key sortTime recentHistory2), k2)))
      else (recentHistory, [], k))"

section \<open>The read path\<close>

text \<open>
  The document store is outside the repository: it answers \<open>findOne\<close> with a
  document or with nothing, or the call fails. \<open>usersUp\<close> and \<open>globalUp\<close> say
  whether the calls on the two collections succeed. What is thrown is a failure of the
  store or the \<open>TypeError\<close> of the runtime.
\<close>

datatype failure = StoreUnavailable | TypeError

record store =
  userDocs :: "jsstring \<Rightarrow> userContext option"
  globalDoc :: "globalContext option"
  usersUp :: bool
  globalUp :: bool

definition findUser :: "store \<Rightarrow> jsstring \<Rightarrow> failure + userContext option" where
  "findUser db uid = (if usersUp db then Inr (userDocs db uid) else Inl StoreUnavailable)"

definition findGlobal :: "store \<Rightarrow> failure + globalContext option" where
  "findGlobal db = (if globalUp db then Inr (globalDoc db) else Inl StoreUnavailable)"

text \<open>
  The object the read path returns. A key the source leaves out of an object literal
  is \<open>None\<close> here; \<open>globalPersonality\<close> is only ever written as \<open>null\<close>.
\<close>

record userInfo =
  infoUserId :: jsstring
  infoUsername :: "jsstring option"
  infoMood :: jsstring
  infoPreferences :: "preferences option"
  infoLastActive :: "int option"
  infoContextTokens :: "jsstring list option"

record retrievalResult =
  userInfo :: userInfo
  relevantHistory :: "turn list"
  recentHistory :: "turn list"
  resultBotPersonality :: "jsstring option"
  globalPersonality :: "jsstring option"
  globalTopics :: "jsstring list option"
  previousBotMessage :: "jsstring option"

text \<open>\<open>\w\<close>: an ASCII letter, a digit or the underscore.\<close>

definition isWordChar :: "16 word \<Rightarrow> bool" where
  "isWordChar c = ((0x41 \<le> c \<and> c \<le> 0x5A) \<or> (0x61 \<le> c \<and> c \<le> 0x7A) \<or> (0x30 \<le> c \<and> c \<le> 0x39) \<or> c = 0x5F)"

text \<open>\<open>message.match(/@(\w+)/)\<close>: the capture of the leftmost match, if there is one.\<close>

fun atMention :: "jsstring \<Rightarrow> jsstring option" where
  "atMention [] = None"
| "atMention (c # cs) =
     (if c = 0x40 \<and> takeWhile isWordChar cs \<noteq> [] then Some (takeWhile isWordChar cs)
      else atMention cs)"

text \<open>The result for a user without a stored document.\<close>

definition newUserResult :: "jsstring \<Rightarrow> retrievalResult" where
  "newUserResult uid =
     \<lparr>userInfo = \<lparr>infoUserId = uid, infoUsername = None, infoMood = js ''neutral'',
                   infoPreferences = None, infoLastActive = None, infoContextTokens = None\<rparr>,
      relevantHistory = [], recentHistory = [], resultBotPersonality = None,
      globalPersonality = None, globalTopics = None, previousBotMessage = None\<rparr>"

text \<open>The result of the \<open>catch\<close> block.\<close>

definition minimalResult :: "jsstring \<Rightarrow> retrievalResult" where
  "minimalResult uid =
     \<lparr>userInfo = \<lparr>infoUserId = uid, infoUsername = None, infoMood = js ''neutral'',
                   infoPreferences = None, infoLastActive = None, infoContextTokens = None\<rparr>,
      relevantHistory = [], recentHistory = [],
      resultBotPersonality = Some (js ''friendly and helpful''),
      globalPersonality = None, globalTopics = None, previousBotMessage = None\<rparr>"

text \<open>
  The message comes from the request body and is \<open>None\<close> when the body has none.
  \<open>if (!username && message.includes('@'))\<close>: the message is read only when the
  stored username is missing or empty, and reading \<open>includes\<close> of an undefined
  message throws.
\<close>

definition usernameFor :: "jsstring option \<Rightarrow> jsstring option \<Rightarrow> failure + jsstring option" where
  "usernameFor stored msg =
     (if orEmpty stored = []
      then (case msg of
              None \<Rightarrow> Inl TypeError
            | Some m \<Rightarrow>
                Inr (if 0x40 \<in> set m
                     then (case atMention m of None \<Rightarrow> stored | Some u \<Rightarrow> Some u)
                     else stored))
      else Inr stored)"

text \<open>
  The rest of the \<open>try\<close> block, for a stored document \<open>uc\<close> and the outcome
  \<open>gc\<close> of reading the global document. \<open>preprocessText\<close> returns the empty
  string for an undefined message and feeds only the TF-IDF index, whose measures are
  \<open>tfidfMeasure\<close>.
\<close>

definition assembleResult ::
  "runtime \<Rightarrow> jsstring \<Rightarrow> jsstring option \<Rightarrow> userContext \<Rightarrow> globalContext option
     \<Rightarrow> failure + retrievalResult" where
  "assembleResult rt uid msg uc gc =
     (let personality =
            orElse (case gc of None \<Rightarrow> None | Some g \<Rightarrow> botPersonality g)
              (js ''toxic, sassy, and slightly unhinged girlfriend AI'');
          topics = (case gc of None \<Rightarrow> []
                    | Some g \<Rightarrow> (case recentGlobalTopics g of None \<Rightarrow> [] | Some ts \<Rightarrow> ts));
          history = (case conversationHistory uc of None \<Rightarrow> [] | Some h \<Rightarrow> h);
          previous = (if 0 < length history then response (last history) else None)
      in case mergeHistory rt 0 history of
           (recent, relevant, k) \<Rightarrow>
             (let tokens = (case contextTokens uc of None \<Rightarrow> [] | Some ts \<Rightarrow> ts)
              in case usernameFor (username uc) msg of
                   Inl e \<Rightarrow> Inl e
                 | Inr name \<Rightarrow>
                     Inr \<lparr>userInfo =
                            \<lparr>infoUserId = uid,
                             infoUsername = Some (orElse name (js ''User'')),
                             infoMood = orElse (mood uc) (js ''neutral''),
                             infoPreferences = Some (case preferences uc of None \<Rightarrow> [] | Some p \<Rightarrow> p),
                             infoLastActive = Some (case lastActive uc of None \<Rightarrow> clockAt rt k | Some t \<Rightarrow> t),
                             infoContextTokens = Some tokens\<rparr>,
                          relevantHistory = relevant,
                          recentHistory = recent,
                          resultBotPersonality = Some personality,
                          globalPersonality = None,
                          globalTopics = Some (sliceLast 5 topics),
                          previousBotMessage = previous\<rparr>))"

text \<open>The \<open>try\<close> block: whatever is thrown inside leaves it with the failure.\<close>

definition retrieveUserContextTry ::
  "runtime \<Rightarrow> store \<Rightarrow> jsstring \<Rightarrow> jsstring option \<Rightarrow> failure + retrievalResult" where
  "retrieveUserContextTry rt db uid msg =
     (case findUser db uid of
        Inl e \<Rightarrow> Inl e
      | Inr None \<Rightarrow> Inr (newUserResult uid)
      | Inr (Some uc) \<Rightarrow>
          (case findGlobal db of
             Inl e \<Rightarrow> Inl e
           | Inr gc \<Rightarrow> assembleResult rt uid msg uc gc))"

definition retrieveUserContext ::
  "runtime \<Rightarrow> store \<Rightarrow> jsstring \<Rightarrow> jsstring option \<Rightarrow> retrievalResult" where
  "retrieveUserContext rt db uid msg =
     (case retrieveUserContextTry rt db uid msg of
        Inl e \<Rightarrow> minimalResult uid
      | Inr r \<Rightarrow> r)"

section \<open>Signals from text\<close>

subsection \<open>Characters\<close>

text \<open>
  \<open>toLowerCase\<close> and \<open>toUpperCase\<close> belong to the runtime, which maps every cased
  letter of Unicode. The model maps the ASCII letters and the Cyrillic letters
  \<open>U+0410 .. U+044F\<close> (the letters the tokenizer keeps) and leaves every other code
  unit as it is: it is the runtime's mapping on text whose cased letters are among these,
  and the entity filter, which reads the first character of a token, sees only these.
\<close>

definition toLowerUnit :: "16 word \<Rightarrow> 16 word" where
  "toLowerUnit c =
     (if (0x41 \<le> c \<and> c \<le> 0x5A) \<or> (0x410 \<le> c \<and> c \<le> 0x42F) then c + 0x20 else c)"

definition toUpperUnit :: "16 word \<Rightarrow> 16 word" where
  "toUpperUnit c =
     (if (0x61 \<le> c \<and> c \<le> 0x7A) \<or> (0x430 \<le> c \<and> c \<le> 0x44F) then c - 0x20 else c)"

definition toLowerCase :: "jsstring \<Rightarrow> jsstring" where
  "toLowerCase s = map toLowerUnit s"

text \<open>\<open>\s\<close>, which is also what \<open>trim\<close> removes: white space and line terminators.\<close>

definition isSpace :: "16 word \<Rightarrow> bool" where
  "isSpace c =
     ((0x09 \<le> c \<and> c \<le> 0x0D) \<or> c = 0x20 \<or> c = 0xA0 \<or> c = 0x1680 \<or>
      (0x2000 \<le> c \<and> c \<le> 0x200A) \<or> c = 0x2028 \<or> c = 0x2029 \<or> c = 0x202F \<or>
      c = 0x205F \<or> c = 0x3000 \<or> c = 0xFEFF)"

text \<open>The characters that \<open>.\<close> does not match.\<close>

definition isLineTerminator :: "16 word \<Rightarrow> bool" where
  "isLineTerminator c = (c = 0x0A \<or> c = 0x0D \<or> c = 0x2028 \<or> c = 0x2029)"

definition trim :: "jsstring \<Rightarrow> jsstring" where
  "trim s = rev (dropWhile isSpace (rev (dropWhile isSpace s)))"

fun startsWith :: "jsstring \<Rightarrow> jsstring \<Rightarrow> bool" where
  "startsWith s [] = True"
| "startsWith [] (p # ps) = False"
| "startsWith (c # cs) (p # ps) = (c = p \<and> startsWith cs ps)"

text \<open>\<open>s.includes(sub)\<close>\<close>

fun includesSub :: "jsstring \<Rightarrow> jsstring \<Rightarrow> bool" where
  "includesSub [] sub = (sub = [])"
| "includesSub (c # cs) sub = (startsWith (c # cs) sub \<or> includesSub cs sub)"

text \<open>\<open>[...new Set(xs)]\<close>: the first occurrence of every element, in order.\<close>

definition addOnce :: "'a list \<Rightarrow> 'a \<Rightarrow> 'a list" where
  "addOnce acc x = (if x \<in> set acc then acc else acc @ [x])"

definition uniq :: "'a list \<Rightarrow> 'a list" where
  "uniq xs = foldl addOnce [] xs"

subsection \<open>Mood\<close>

text \<open>
  A score is a double: a rational that has a 53-bit significand. \<open>roundDouble\<close> rounds
  a rational to the nearest double, ties to the even significand, as the runtime rounds
  a decimal literal and the exact sum of two doubles. It is written for 0 and for the
  values from 1/8 up to 8; the scores lie between 0.2 and 4.5 (nine keywords and nine
  emojis at most), or are 0.
\<close>

definition ulpOf :: "rat \<Rightarrow> rat" where
  "ulpOf x =
     (if x < 1 / 4 then 1 / 2 ^ 55 else if x < 1 / 2 then 1 / 2 ^ 54
      else if x < 1 then 1 / 2 ^ 53 else if x < 2 then 1 / 2 ^ 52
      else if x < 4 then 1 / 2 ^ 51 else 1 / 2 ^ 50)"

definition roundDouble :: "rat \<Rightarrow> rat" where
  "roundDouble x =
     (if x = 0 then 0
      else
        (let q = x / ulpOf x;
             n = \<lfloor>q\<rfloor>;
             rest = q - of_int n
         in (if rest < 1 / 2 then of_int n
             else if 1 / 2 < rest then of_int (n + 1)
             else if even n then of_int n else of_int (n + 1)) * ulpOf x))"

text \<open>\<open>a + b\<close> on doubles.\<close>

definition addDouble :: "rat \<Rightarrow> rat \<Rightarrow> rat" where
  "addDouble a b = roundDouble (a + b)"

text \<open>
  \<open>moodKeywords\<close>, in the order of the object literal: mood, keywords, emojis, initial
  score. The emoji entries are the code units of the source file as the runtime reads it.
\<close>

definition moodKeywords :: "(jsstring \<times> jsstring list \<times> jsstring list \<times> rat) list" where
  "moodKeywords =
    [
     (js ''affectionate'',
      [js ''love'', js ''miss'', js ''adore'', js ''care'', js ''xoxo'', js ''heart'', js ''darling'', js ''babe'', js ''honey''],
      [[0xF0, 0x178, 0x2DC], [0xF0, 0x178, 0x2DC, 0x2DC], [0xE2, 0xA4, 0xEF, 0xB8], [0xF0, 0x178, 0x2019, 0x2022], [0xF0, 0x178, 0x2019, 0x2013], [0xF0, 0x178, 0x2019, 0x201C], [0xF0, 0x178, 0x2019, 0x2014], [0xF0, 0x178, 0x2019, 0x17E], [0xF0, 0x178, 0x2019, 0x2DC]],
      0),
     (js ''happy'',
      [js ''happy'', js ''glad'', js ''excited'', js ''yay'', js ''woohoo'', js ''joy'', js ''delighted'', js ''wonderful'', js ''amazing''],
      [[0xF0, 0x178, 0x2DC, 0x160], [0xF0, 0x178, 0x2DC, 0x192], [0xF0, 0x178, 0x2DC, 0x201E], [0xF0, 0x178, 0x2DC], [0xF0, 0x178, 0x2122, 0x201A], [0xF0, 0x178, 0x2DC, 0x20AC], [0xF0, 0x178, 0x2DC, 0xB8], [0xF0, 0x178, 0x2DC, 0xBA], [0xF0, 0x178, 0xA5, 0xB3]],
      0),
     (js ''sad'',
      [js ''sad'', js ''upset'', js ''tired'', js ''exhausted'', js ''depressed'', js ''unhappy'', js ''miss'', js ''lonely'', js ''down''],
      [[0xF0, 0x178, 0x2DC, 0x201D], [0xF0, 0x178, 0x2DC, 0xA2], [0xF0, 0x178, 0x2DC, 0xAD], [0xF0, 0x178, 0x2DC, 0xA5], [0xF0, 0x178, 0x2DC, 0xBF], [0xF0, 0x178, 0x2DC, 0x201C], [0xF0, 0x178, 0xA5, 0xBA], [0xF0, 0x178, 0x2DC, 0x17E], [0xF0, 0x178, 0x2DC, 0x178]],
      0),
     (js ''upset'',
      [js ''angry'', js ''annoyed'', js ''frustrated'', js ''mad'', js ''furious'', js ''irritated'', js ''hate'', js ''rage'', js ''fed up''],
      [[0xF0, 0x178, 0x2DC, 0xA0], [0xF0, 0x178, 0x2DC, 0xA1], [0xF0, 0x178, 0xA4, 0xAC], [0xF0, 0x178, 0x2DC, 0xA4], [0xF0, 0x178, 0x2DC, 0x2019], [0xF0, 0x178, 0x2DC, 0x2018], [0xF0, 0x178, 0x2DC, 0xBE], [0xF0, 0x178, 0x2019, 0xA2], [0xF0, 0x178, 0x2018, 0xBF]],
      0),
     (js ''bored'',
      [js ''bored'', js ''whatever'', js ''meh'', js ''dull'', js ''uninterested'', js ''tedious'', js ''mundane'', js ''bland''],
      [[0xF0, 0x178, 0x2DC, 0x2019], [0xF0, 0x178, 0x2122, 0x201E], [0xF0, 0x178, 0x2DC], [0xF0, 0x178, 0x2DC, 0x2018], [0xF0, 0x178, 0x2DC, 0xB4], [0xF0, 0x178, 0x2019, 0xA4], [0xF0, 0x178, 0xA5, 0xB1], [0xF0, 0x178, 0x2DC, 0xAA]],
      0),
     (js ''flirty'',
      [js ''flirt'', js ''sexy'', js ''hot'', js ''cute'', js ''beautiful'', js ''handsome'', js ''attractive'', js ''kiss'', js ''hug''],
      [[0xF0, 0x178, 0x2DC], [0xF0, 0x178, 0x2DC, 0x2030], [0xF0, 0x178, 0x201D, 0xA5], [0xF0, 0x178, 0x2019, 0x2039], [0xF0, 0x178, 0x2DC, 0x2C6], [0xF0, 0x178, 0x2018, 0x20AC], [0xF0, 0x178, 0xA4, 0xA4], [0xF0, 0x178, 0x2019, 0xA6], [0xF0, 0x178, 0x2018, 0x2026]],
      0),
     (js ''neutral'', [], [], roundDouble (2 / 10))
    ]"

text \<open>The first loop, for one mood: add 0.2 for a keyword found, 0.3 for an emoji found.\<close>

definition moodScore :: "jsstring \<Rightarrow> jsstring \<Rightarrow> jsstring list \<times> jsstring list \<times> rat \<Rightarrow> rat" where
  "moodScore lowerMsg msg entry =
     (case entry of (keywords, emojis, score) \<Rightarrow>
        foldl (\<lambda>s emoji. if includesSub msg emoji then addDouble s (roundDouble (3 / 10)) else s)
          (foldl (\<lambda>s keyword. if includesSub lowerMsg keyword then addDouble s (roundDouble (2 / 10)) else s)
             score keywords)
          emojis)"

text \<open>The second loop: a mood replaces the current one only with a strictly greater score.\<close>

definition pickMood :: "rat \<times> jsstring \<Rightarrow> jsstring \<times> rat \<Rightarrow> rat \<times> jsstring" where
  "pickMood best entry =
     (case best of (highestScore, detectedMood) \<Rightarrow>
        (case entry of (m, score) \<Rightarrow>
           if score > highestScore then (score, m) else (highestScore, detectedMood)))"

definition detectMood :: "jsstring \<Rightarrow> jsstring" where
  "detectMood msg =
     (let lowerMsg = toLowerCase msg;
          scored = map (\<lambda>(m, entry). (m, moodScore lowerMsg msg entry)) moodKeywords
      in snd (foldl pickMood (0, js ''neutral'') scored))"

subsection \<open>Preferences\<close>

text \<open>
  The three regular expressions are matched by backtracking, as the runtime does: every
  piece takes the continuation \<open>k\<close> that matches the rest of the pattern, and gives the
  first success in the order of the runtime's search.
\<close>

fun stripPrefix :: "jsstring \<Rightarrow> jsstring \<Rightarrow> jsstring option" where
  "stripPrefix [] s = Some s"
| "stripPrefix (p # ps) [] = None"
| "stripPrefix (p # ps) (c # cs) = (if p = c then stripPrefix ps cs else None)"

text \<open>A literal piece.\<close>

definition lit :: "jsstring \<Rightarrow> (jsstring \<Rightarrow> 'r option) \<Rightarrow> jsstring \<Rightarrow> 'r option" where
  "lit p k s = (case stripPrefix p s of None \<Rightarrow> None | Some rest \<Rightarrow> k rest)"

text \<open>\<open>(?:a|b|...)\<close>: the alternatives in order; a later one is tried when the rest fails.\<close>

fun alternatives :: "jsstring list \<Rightarrow> (jsstring \<Rightarrow> 'r option) \<Rightarrow> jsstring \<Rightarrow> 'r option" where
  "alternatives [] k s = None"
| "alternatives (a # as) k s =
     (case lit a k s of Some r \<Rightarrow> Some r | None \<Rightarrow> alternatives as k s)"

text \<open>
  \<open>(.{3,30}?)\<close>: \<open>dotsAt n\<close> captures exactly \<open>n\<close> characters, none a line terminator;
  \<open>lazyDots extra n\<close> tries \<open>n\<close>, then \<open>n + 1\<close>, up to \<open>n + extra\<close>, shortest first.
\<close>

definition dotsAt :: "nat \<Rightarrow> (jsstring \<Rightarrow> 'r option) \<Rightarrow> jsstring \<Rightarrow> (jsstring \<times> 'r) option" where
  "dotsAt n k s =
     (if n \<le> length s \<and> list_all (\<lambda>c. \<not> isLineTerminator c) (take n s)
      then (case k (drop n s) of None \<Rightarrow> None | Some r \<Rightarrow> Some (take n s, r))
      else None)"

fun lazyDots :: "nat \<Rightarrow> nat \<Rightarrow> (jsstring \<Rightarrow> 'r option) \<Rightarrow> jsstring \<Rightarrow> (jsstring \<times> 'r) option" where
  "lazyDots 0 n k s = dotsAt n k s"
| "lazyDots (Suc extra) n k s =
     (case dotsAt n k s of Some r \<Rightarrow> Some r | None \<Rightarrow> lazyDots extra (Suc n) k s)"

text \<open>
  \<open>(?:\.|\!|\,|\s|$)\<close>, the end of each pattern: the text after the match. Without the
  \<open>m\<close> flag \<open>$\<close> matches at the end of the text only.
\<close>

fun terminator :: "jsstring \<Rightarrow> jsstring option" where
  "terminator [] = Some []"
| "terminator (c # cs) =
     (if c = 0x2E \<or> c = 0x21 \<or> c = 0x2C \<or> isSpace c then Some cs else None)"

datatype preferencePattern = Likes | Dislikes | Favorites

text \<open>
  A match of the pattern at the start of \<open>s\<close>: \<open>match[1]\<close> and the text after the match.
  (In the third pattern \<open>match[1]\<close> is the first of the two captures.)
\<close>

fun matchAt :: "preferencePattern \<Rightarrow> jsstring \<Rightarrow> (jsstring \<times> jsstring) option" where
  "matchAt Likes s =
     alternatives [js ''i'', js ''me'', js ''my'', js ''we'']
       (lit (js '' '')
         (alternatives [js ''like'', js ''love'', js ''enjoy'', js ''prefer'']
           (lit (js '' '') (lazyDots 27 3 terminator)))) s"
| "matchAt Dislikes s =
     alternatives [js ''i'', js ''me'', js ''my'', js ''we'']
       (lit (js '' '')
         (alternatives [js ''hate'', js ''dislike'', js ''don'' @ [0x27] @ js ''t like'', js ''do not like'']
           (lit (js '' '') (lazyDots 27 3 terminator)))) s"
| "matchAt Favorites s =
     (case alternatives [js ''my'', js ''our'']
             (lit (js '' favorite '')
               (lazyDots 27 3
                 (lit (js '' '')
                   (alternatives [js ''is'', js ''are'']
                     (lit (js '' '') (lazyDots 27 3 terminator)))))) s of
        None \<Rightarrow> None
      | Some (first, second, rest) \<Rightarrow> Some (first, rest))"

text \<open>
  \<open>pattern.exec\<close> with the \<open>g\<close> flag, on the text from \<open>lastIndex\<close> on: the leftmost
  start at which the pattern matches. The search covers the end of the text.
\<close>

fun search :: "preferencePattern \<Rightarrow> jsstring \<Rightarrow> (jsstring \<times> jsstring) option" where
  "search p [] = matchAt p []"
| "search p (c # cs) =
     (case matchAt p (c # cs) of Some r \<Rightarrow> Some r | None \<Rightarrow> search p cs)"

text \<open>The body of the \<open>while\<close> loop for one match.\<close>

definition addPreference :: "jsstring \<Rightarrow> jsstring \<Rightarrow> preferences \<Rightarrow> preferences" where
  "addPreference type captured prefs =
     (let prefs1 = (case map_of prefs type of None \<Rightarrow> AList.update type [] prefs | Some l \<Rightarrow> prefs);
          preference = trim captured
      in case map_of prefs1 type of
           None \<Rightarrow> prefs1
         | Some l \<Rightarrow>
             if preference \<noteq> [] \<and> 2 < length preference \<and> preference \<notin> set l
             then AList.update type (l @ [preference]) prefs1
             else prefs1)"

text \<open>
  A match takes at least three characters of the text and captures between 3 and 30:
  the facts behind the termination of the \<open>while\<close> loop.
\<close>

lemma stripPrefix_length: "stripPrefix p s = Some r \<Longrightarrow> length s = length p + length r"
  by (induction p s rule: stripPrefix.induct) (auto split: if_splits)

lemma lit_Some:
  assumes "lit p k s = Some x"
  obtains r where "length s = length p + length r" and "k r = Some x"
proof (cases "stripPrefix p s")
  case None
  with assms show ?thesis by (simp add: lit_def)
next
  case (Some r)
  with assms have "k r = Some x" by (simp add: lit_def)
  moreover from Some have "length s = length p + length r" by (rule stripPrefix_length)
  ultimately show ?thesis using that by simp
qed

lemma alternatives_Some:
  assumes "alternatives as k s = Some x"
  obtains r where "length r \<le> length s" and "k r = Some x"
  using assms
proof (induction as)
  case Nil
  then show ?case by simp
next
  case (Cons a as)
  show ?case
  proof (cases "lit a k s")
    case None
    with Cons.prems(2) have "alternatives as k s = Some x" by simp
    with Cons.IH Cons.prems(1) show ?thesis by simp
  next
    case (Some y)
    with Cons.prems(2) have "lit a k s = Some x" by simp
    then obtain r where "length s = length a + length r" "k r = Some x" by (rule lit_Some)
    then show ?thesis using Cons.prems(1)[of r] by simp
  qed
qed

lemma dotsAt_Some:
  "dotsAt n k s = Some (c, r) \<Longrightarrow> c = take n s \<and> n \<le> length s \<and> k (drop n s) = Some r"
  by (simp add: dotsAt_def split: if_splits option.splits)

lemma lazyDots_Some:
  assumes "lazyDots m n k s = Some (c, r)"
  obtains j where "n \<le> j" and "j \<le> n + m" and "j \<le> length s" and "c = take j s"
    and "k (drop j s) = Some r"
  using assms
proof (induction m arbitrary: n thesis)
  case 0
  then have "dotsAt n k s = Some (c, r)" by simp
  from dotsAt_Some[OF this] show ?case using "0.prems"(1)[of n] by simp
next
  case (Suc m)
  show ?case
  proof (cases "dotsAt n k s")
    case None
    with Suc.prems(2) have run: "lazyDots m (Suc n) k s = Some (c, r)" by simp
    show ?thesis
    proof (rule Suc.IH[OF _ run])
      fix j assume "Suc n \<le> j" "j \<le> Suc n + m" "j \<le> length s" "c = take j s" "k (drop j s) = Some r"
      then show thesis using Suc.prems(1)[of j] by simp
    qed
  next
    case (Some y)
    with Suc.prems(2) have "dotsAt n k s = Some (c, r)" by simp
    from dotsAt_Some[OF this] show ?thesis using Suc.prems(1)[of n] by simp
  qed
qed

lemma terminator_length: "terminator s = Some r \<Longrightarrow> length r \<le> length s"
  by (cases s) (auto split: if_splits)

lemma capture_tail:
  "lazyDots 27 3 terminator s = Some (c, r) \<Longrightarrow>
   3 \<le> length c \<and> length c \<le> 30 \<and> length r + 3 \<le> length s"
proof -
  assume "lazyDots 27 3 terminator s = Some (c, r)"
  then obtain j where j: "3 \<le> j" "j \<le> 3 + 27" "j \<le> length s" "c = take j s" "terminator (drop j s) = Some r"
    by (rule lazyDots_Some)
  from j(5) have "length r \<le> length (drop j s)" by (rule terminator_length)
  with j show ?thesis by simp
qed

lemma verb_tail:
  "alternatives as (lit sp (lazyDots 27 3 terminator)) s = Some (c, r) \<Longrightarrow>
   3 \<le> length c \<and> length c \<le> 30 \<and> length r + 3 \<le> length s"
proof -
  assume "alternatives as (lit sp (lazyDots 27 3 terminator)) s = Some (c, r)"
  then obtain s1 where s1: "length s1 \<le> length s" "lit sp (lazyDots 27 3 terminator) s1 = Some (c, r)"
    by (rule alternatives_Some)
  from s1(2) obtain s2 where s2: "length s1 = length sp + length s2" "lazyDots 27 3 terminator s2 = Some (c, r)"
    by (rule lit_Some)
  from capture_tail[OF s2(2)] s1(1) s2(1) show ?thesis by simp
qed

lemma subject_tail:
  "alternatives as (lit sp (alternatives bs (lit sp' (lazyDots 27 3 terminator)))) s = Some (c, r) \<Longrightarrow>
   3 \<le> length c \<and> length c \<le> 30 \<and> length r + 3 \<le> length s"
proof -
  assume "alternatives as (lit sp (alternatives bs (lit sp' (lazyDots 27 3 terminator)))) s = Some (c, r)"
  then obtain s1 where s1: "length s1 \<le> length s" "lit sp (alternatives bs (lit sp' (lazyDots 27 3 terminator))) s1 = Some (c, r)"
    by (rule alternatives_Some)
  from s1(2) obtain s2 where s2: "length s1 = length sp + length s2" "alternatives bs (lit sp' (lazyDots 27 3 terminator)) s2 = Some (c, r)"
    by (rule lit_Some)
  from verb_tail[OF s2(2)] s1(1) s2(1) show ?thesis by simp
qed

lemma favorites_tail:
  assumes "alternatives as (lit fav (lazyDots 27 3 (lit sp (alternatives bs (lit sp' (lazyDots 27 3 terminator)))))) s = Some (c, c2, r)"
  shows "3 \<le> length c \<and> length c \<le> 30 \<and> length r + 3 \<le> length s"
proof -
  from assms obtain s1 where s1: "length s1 \<le> length s"
      "lit fav (lazyDots 27 3 (lit sp (alternatives bs (lit sp' (lazyDots 27 3 terminator))))) s1 = Some (c, c2, r)"
    by (rule alternatives_Some)
  from s1(2) obtain s2 where s2: "length s1 = length fav + length s2"
      "lazyDots 27 3 (lit sp (alternatives bs (lit sp' (lazyDots 27 3 terminator)))) s2 = Some (c, c2, r)"
    by (rule lit_Some)
  from s2(2) obtain j where j: "3 \<le> j" "j \<le> 3 + 27" "j \<le> length s2" "c = take j s2"
      "lit sp (alternatives bs (lit sp' (lazyDots 27 3 terminator))) (drop j s2) = Some (c2, r)"
    by (rule lazyDots_Some)
  from j(5) obtain s3 where s3: "length (drop j s2) = length sp + length s3"
      "alternatives bs (lit sp' (lazyDots 27 3 terminator)) s3 = Some (c2, r)"
    by (rule lit_Some)
  from s3(1) have "length s3 \<le> length s2" by simp
  with verb_tail[OF s3(2)] j(1,2,3,4) s2(1) s1(1) show ?thesis by simp
qed

lemma matchAt_Some:
  assumes "matchAt p s = Some (c, r)"
  shows "3 \<le> length c \<and> length c \<le> 30 \<and> length r + 3 \<le> length s"
proof (cases p)
  case Likes
  from assms[unfolded Likes matchAt.simps] show ?thesis by (rule subject_tail)
next
  case Dislikes
  from assms[unfolded Dislikes matchAt.simps] show ?thesis by (rule subject_tail)
next
  case Favorites
  let ?m = "alternatives [js ''my'', js ''our'']
             (lit (js '' favorite '')
               (lazyDots 27 3
                 (lit (js '' '')
                   (alternatives [js ''is'', js ''are'']
                     (lit (js '' '') (lazyDots 27 3 terminator)))))) s"
  from assms[unfolded Favorites matchAt.simps] obtain c2 where "?m = Some (c, c2, r)"
    by (cases ?m) (simp_all split: prod.splits)
  then show ?thesis by (rule favorites_tail)
qed

lemma search_Some:
  "search p s = Some (c, r) \<Longrightarrow> 3 \<le> length c \<and> length c \<le> 30 \<and> length r + 3 \<le> length s"
proof (induction s)
  case Nil
  then show ?case using matchAt_Some[of p "[]" c r] by simp
next
  case (Cons a s)
  show ?case
  proof (cases "matchAt p (a # s)")
    case None
    with Cons.prems have "search p s = Some (c, r)" by simp
    from Cons.IH[OF this] show ?thesis by simp
  next
    case (Some y)
    with Cons.prems have "matchAt p (a # s) = Some (c, r)" by simp
    then show ?thesis by (rule matchAt_Some)
  qed
qed

text \<open>
  \<open>while ((match = pattern.exec(combinedText)) !== null)\<close> for one pattern, on the text
  from \<open>lastIndex\<close> on.
\<close>

function matchLoop :: "preferencePattern \<Rightarrow> jsstring \<Rightarrow> jsstring \<Rightarrow> preferences \<Rightarrow> preferences" where
  "matchLoop p type s prefs =
     (case search p s of
        None \<Rightarrow> prefs
      | Some (captured, rest) \<Rightarrow> matchLoop p type rest (addPreference type captured prefs))"
  by pat_completeness auto
termination
proof (relation "measure (\<lambda>(p, type, s, prefs). length s)")
  show "wf (measure (\<lambda>(p, type, s, prefs). length s))" by (rule wf_measure)
next
  fix p :: preferencePattern and type s :: jsstring and prefs :: preferences and x2 captured rest
  assume a: "search p s = Some x2" and b: "(captured, rest) = x2"
  have "search p s = Some (captured, rest)" unfolding b by (rule a)
  then have "length rest + 3 \<le> length s" using search_Some[of p s captured rest] by simp
  then show "((p, type, rest, addPreference type captured prefs), (p, type, s, prefs)) \<in> measure (\<lambda>(p, type, s, prefs). length s)"
    by simp
qed

declare matchLoop.simps [simp del]

definition preferencePatterns :: "(preferencePattern \<times> jsstring) list" where
  "preferencePatterns = [(Likes, js ''likes''), (Dislikes, js ''dislikes''), (Favorites, js ''favorites'')]"

definition extractPreferences :: "jsstring \<Rightarrow> jsstring \<Rightarrow> preferences" where
  "extractPreferences msg resp =
     (let combinedText = toLowerCase (msg @ js '' '' @ resp)
      in foldl (\<lambda>prefs (p, type). matchLoop p type combinedText prefs) [] preferencePatterns)"

subsection \<open>Entities\<close>

text \<open>
  The \<open>WordTokenizer\<close> of the \<open>natural\<close> package splits the text at every run of
  characters outside \<open>[A-Za-z0-9_]\<close> and the Cyrillic letters \<open>U+0410 .. U+044F\<close>, and
  drops the empty pieces.
\<close>

definition isTokenChar :: "16 word \<Rightarrow> bool" where
  "isTokenChar c = (isWordChar c \<or> (0x410 \<le> c \<and> c \<le> 0x44F))"

fun tokensFrom :: "jsstring \<Rightarrow> jsstring \<Rightarrow> jsstring list" where
  "tokensFrom cur [] = (if cur = [] then [] else [cur])"
| "tokensFrom cur (c # cs) =
     (if isTokenChar c then tokensFrom (cur @ [c]) cs
      else (if cur = [] then [] else [cur]) @ tokensFrom [] cs)"

definition tokenize :: "jsstring \<Rightarrow> jsstring list" where
  "tokenize s = tokensFrom [] s"

definition commonWords :: "jsstring list" where
  "commonWords =
     [js ''I'', js ''A'', js ''The'', js ''An'', js ''And'', js ''But'', js ''Or'', js ''For'',
      js ''Nor'', js ''As'', js ''At'', js ''By'', js ''For'', js ''From'', js ''In'', js ''Into'',
      js ''Near'', js ''Of'', js ''On'', js ''To'', js ''With'']"

text \<open>The filter: the first character is read only when the word is longer than 3.\<close>

definition isPotentialEntity :: "jsstring \<Rightarrow> bool" where
  "isPotentialEntity word =
     (3 < length word \<and>
      (case word of [] \<Rightarrow> False | c # cs \<Rightarrow> c = toUpperUnit c \<and> c \<noteq> toLowerUnit c) \<and>
      word \<notin> set commonWords)"

definition extractEntities :: "jsstring \<Rightarrow> jsstring list" where
  "extractEntities text = uniq (filter isPotentialEntity (tokenize text))"

subsection \<open>Topics\<close>




section \<open>The write path\<close>

text \<open>The document an upsert starts from when the user has none.\<close>

definition freshUser :: "jsstring \<Rightarrow> userContext" where
  "freshUser uid =
     \<lparr>userId = uid, username = None, conversationHistory = None, mood = None,
      preferences = None, contextTokens = None, lastActive = None\<rparr>"

text \<open>
  The object that the update pushes onto the history: a turn with the entities of the
  message.
\<close>

record pushedTurn = turn +
  entities :: "jsstring list"

text \<open>
  The store keeps of an update the paths that the schema declares. The schema of a turn
  has no \<open>entities\<close>, so the pushed turn is stored, and returned, without them.
\<close>

definition schemaTurn :: "pushedTurn \<Rightarrow> turn" where
  "schemaTurn t = \<lparr>message = message t, response = response t, timestamp = timestamp t\<rparr>"

text \<open>
  \<open>findOneAndUpdate\<close> with \<open>upsert\<close> and \<open>new\<close>: \<open>$set\<close> the fields, \<open>$push\<close> the
  turn, \<open>$set\<close> the preferences when the extracted object has a key, \<open>$addToSet\<close> the
  entities when there are any. The clock is read for \<open>lastActive\<close> first and for the
  turn's timestamp second. The update also sets \<open>lastBotResponse\<close>; the schema of the
  document has no such path, and nothing is stored for it.
\<close>

definition applyUpdate :: "runtime \<Rightarrow> userContext \<Rightarrow> jsstring \<Rightarrow> jsstring \<Rightarrow> jsstring \<Rightarrow> userContext" where
  "applyUpdate rt doc uname msg resp =
     (let extractedEntities = extractEntities msg;
          extractedPreferences = extractPreferences msg resp;
          newTurn = \<lparr>message = Some msg, response = Some resp,
                     timestamp = Some (clockAt rt 1), entities = extractedEntities\<rparr>;
          history = (case conversationHistory doc of None \<Rightarrow> [] | Some h \<Rightarrow> h);
          tokens = (case contextTokens doc of None \<Rightarrow> [] | Some ts \<Rightarrow> ts)
      in doc\<lparr>username := Some uname,
              lastActive := Some (clockAt rt 0),
              mood := Some (detectMood msg),
              conversationHistory := Some (history @ [schemaTurn newTurn]),
              preferences := (if extractedPreferences \<noteq> [] then Some extractedPreferences
                              else preferences doc),
              contextTokens := (if extractedEntities \<noteq> [] then Some (foldl addOnce tokens extractedEntities)
                                else contextTokens doc)\<rparr>)"

text \<open>
  The updated document, which the function returns, and the store afterwards. When the
  updated history is longer than 50 a second write stores its first 5 and last 45
  turns. A failed call of the store is thrown again to the caller.
\<close>

definition updateUserContext ::
  "runtime \<Rightarrow> store \<Rightarrow> jsstring \<Rightarrow> jsstring \<Rightarrow> jsstring \<Rightarrow> jsstring \<Rightarrow> failure + userContext \<times> store" where
  "updateUserContext rt db uid uname msg resp =
     (if \<not> usersUp db then Inl StoreUnavailable
      else
        (let doc = (case userDocs db uid of None \<Rightarrow> freshUser uid | Some uc \<Rightarrow> uc);
             updatedUser = applyUpdate rt doc uname msg resp;
             history = (case conversationHistory updatedUser of None \<Rightarrow> [] | Some h \<Rightarrow> h);
             keepFirst = sliceFirst 5 history;
             keepLast = sliceLast 45 history;
             stored = (if 50 < length history
                       then updatedUser\<lparr>conversationHistory := Some (keepFirst @ keepLast)\<rparr>
                       else updatedUser)
         in Inr (updatedUser, db\<lparr>userDocs := (userDocs db)(uid := Some stored)\<rparr>)))"


section \<open>Notions used in the statements\<close>


text \<open>
  The sort key the specification describes, next to \<open>sortTime\<close> of the source: a turn
  without a timestamp counts as the current instant \<open>now\<close>.
\<close>

definition specSortTime :: "int \<Rightarrow> turn \<Rightarrow> int" where
  "specSortTime now conv = (case timestamp conv of Some t \<Rightarrow> t | None \<Rightarrow> now)"

text \<open>The history of a document, and the history and topics a store holds.\<close>

definition historyOf :: "userContext \<Rightarrow> turn list" where
  "historyOf uc = (case conversationHistory uc of None \<Rightarrow> [] | Some h \<Rightarrow> h)"

definition storedHistory :: "store \<Rightarrow> jsstring \<Rightarrow> turn list" where
  "storedHistory db uid = (case userDocs db uid of None \<Rightarrow> [] | Some uc \<Rightarrow> historyOf uc)"

definition storedPreferences :: "store \<Rightarrow> jsstring \<Rightarrow> preferences option" where
  "storedPreferences db uid = (case userDocs db uid of None \<Rightarrow> None | Some uc \<Rightarrow> preferences uc)"



text \<open>
  The phrases of one category as the claims describe them: between 3 and 30 characters
  each, none twice. And: the category holds the phrase.
\<close>

definition goodPhrases :: "jsstring list \<Rightarrow> bool" where
  "goodPhrases l = (list_all (\<lambda>p. 3 \<le> length p \<and> length p \<le> 30) l \<and> distinct l)"

definition hasPhrase :: "jsstring \<Rightarrow> jsstring \<Rightarrow> preferences \<Rightarrow> bool" where
  "hasPhrase category phrase prefs =
     (case map_of prefs category of None \<Rightarrow> False | Some l \<Rightarrow> phrase \<in> set l)"

section \<open>Example runs\<close>

text \<open>
  A request during which the clock stands at 99000 ms, the text of a Date is the decimal
  count of its whole seconds, and the current message shares no term with any stored
  turn, so that every TF-IDF measure is 0 (as it is for the empty message).
\<close>

definition exampleRuntime :: runtime where
  "exampleRuntime =
     \<lparr>clockAt = (\<lambda>k. 99000), dateText = (\<lambda>t. numberText (t div 1000)), tfidfMeasure = (\<lambda>i. 0)\<rparr>"

definition exampleTurn :: "string \<Rightarrow> int \<Rightarrow> turn" where
  "exampleTurn m t =
     \<lparr>message = Some (js m), response = Some (js ''ok''), timestamp = Some t\<rparr>"

definition exampleUser :: "turn list \<Rightarrow> userContext" where
  "exampleUser history =
     \<lparr>userId = js ''u1'', username = Some (js ''Ann''), conversationHistory = Some history,
      mood = Some (js ''happy''), preferences = Some [(js ''likes'', [js ''pizza''])],
      contextTokens = Some [], lastActive = Some 98000\<rparr>"

text \<open>A store that is up, holds one user, \<open>u1\<close>, and no global document.\<close>

definition exampleStore :: "turn list \<Rightarrow> store" where
  "exampleStore history =
     \<lparr>userDocs = (\<lambda>uid. if uid = js ''u1'' then Some (exampleUser history) else None),
      globalDoc = None, usersUp = True, globalUp = True\<rparr>"

definition history13 :: "turn list" where
  "history13 =
     [exampleTurn ''a'' 1000, exampleTurn ''b'' 2000, exampleTurn ''c'' 3000,
      exampleTurn ''d'' 4000, exampleTurn ''e'' 5000, exampleTurn ''f'' 6000,
      exampleTurn ''g'' 7000, exampleTurn ''h'' 8000, exampleTurn ''i'' 9000,
      exampleTurn ''j'' 10000, exampleTurn ''k'' 11000, exampleTurn ''l'' 12000,
      exampleTurn ''m'' 13000]"

definition history6 :: "turn list" where
  "history6 = take 6 history13"

text \<open>Fifty turns, numbered from 0, one second apart.\<close>

definition numberedTurn :: "nat \<Rightarrow> turn" where
  "numberedTurn i =
     \<lparr>message = Some (digits i), response = Some (js ''ok''),
      timestamp = Some (1000 * int i)\<rparr>"

definition history50 :: "turn list" where
  "history50 = map numberedTurn [0 ..< 50]"

text \<open>A write by user \<open>u1\<close> onto the fifty stored turns.\<close>

definition exampleWrite :: "failure + userContext \<times> store" where
  "exampleWrite =
     updateUserContext exampleRuntime (exampleStore history50) (js ''u1'') (js ''Ann'')
       (js ''hello'') (js ''hi'')"



section \<open>The merged history\<close>











lemma sorted_take_sort: "sorted (map f (take n (sort_key f xs)))"
proof -
  have "sorted (take n (map f (sort_key f xs)))"
    using sorted_sort_key by (rule sorted_wrt_take)
  then show ?thesis by (simp add: take_map)
qed

lemma mergeHistory_sorted:
  "length (fst (snd (mergeHistory rt k history))) \<le> 10 \<and> sorted (map sortTime (fst (snd (mergeHistory rt k history))))"
  by (simp add: mergeHistory_def sliceFirst_def Let_def sorted_take_sort split: prod.splits)


lemma assemble_fields:
  assumes "assembleResult rt uid msg uc gc = Inr r"
  shows "relevantHistory r = fst (snd (mergeHistory rt 0 (historyOf uc)))
   \<and> recentHistory r = fst (mergeHistory rt 0 (historyOf uc))"
proof -
  obtain recent relevant k where m: "mergeHistory rt 0 (historyOf uc) = (recent, relevant, k)"
    by (rule prod_cases3)
  show ?thesis
  proof (cases "usernameFor (username uc) msg")
    case (Inl e)
    with assms m show ?thesis by (simp add: assembleResult_def historyOf_def Let_def)
  next
    case (Inr name)
    with assms m show ?thesis by (auto simp: assembleResult_def historyOf_def Let_def)
  qed
qed

lemma retrieve_cases:
  "retrieveUserContext rt db uid msg = minimalResult uid
   \<or> (userDocs db uid = None \<and> retrieveUserContext rt db uid msg = newUserResult uid)
   \<or> (\<exists>uc. userDocs db uid = Some uc \<and>
         assembleResult rt uid msg uc (globalDoc db) = Inr (retrieveUserContext rt db uid msg))"
proof (cases "usersUp db")
  case False
  then show ?thesis by (simp add: retrieveUserContext_def retrieveUserContextTry_def findUser_def)
next
  case up: True
  show ?thesis
  proof (cases "userDocs db uid")
    case None
    with up show ?thesis by (simp add: retrieveUserContext_def retrieveUserContextTry_def findUser_def)
  next
    case (Some uc)
    show ?thesis
    proof (cases "globalUp db")
      case True
      show ?thesis
      proof (cases "assembleResult rt uid msg uc (globalDoc db)")
        case (Inl e)
        with up Some True show ?thesis
          by (simp add: retrieveUserContext_def retrieveUserContextTry_def findUser_def findGlobal_def)
      next
        case (Inr r)
        with up Some True show ?thesis
          by (simp add: retrieveUserContext_def retrieveUserContextTry_def findUser_def findGlobal_def)
      qed
    next
      case False
      with up Some show ?thesis
        by (simp add: retrieveUserContext_def retrieveUserContextTry_def findUser_def findGlobal_def)
    qed
  qed
qed

lemma retrieve_relevant_cases:
  "relevantHistory (retrieveUserContext rt db uid msg) = [] \<or>
   relevantHistory (retrieveUserContext rt db uid msg) = fst (snd (mergeHistory rt 0 (storedHistory db uid)))"
  using retrieve_cases[of rt db uid msg]
proof (elim disjE conjE exE)
  assume "retrieveUserContext rt db uid msg = minimalResult uid"
  then show ?thesis by (simp add: minimalResult_def)
next
  assume "retrieveUserContext rt db uid msg = newUserResult uid"
  then show ?thesis by (simp add: newUserResult_def)
next
  fix uc assume u: "userDocs db uid = Some uc"
    and "assembleResult rt uid msg uc (globalDoc db) = Inr (retrieveUserContext rt db uid msg)"
  from assemble_fields[OF this(2)] u show ?thesis by (simp add: storedHistory_def)
qed

lemma example_named: "usernameFor (username (exampleUser h)) msg = Inr (Some (js ''Ann''))"
  by (simp add: usernameFor_def exampleUser_def orEmpty_def js_def)

lemma retrieve_example:
  "assembleResult rt (js ''u1'') msg (exampleUser h) None
     = Inr (retrieveUserContext rt (exampleStore h) (js ''u1'') msg)"
proof -
  obtain recent relevant k where
    m: "mergeHistory rt 0 (case conversationHistory (exampleUser h) of None \<Rightarrow> [] | Some x \<Rightarrow> x) = (recent, relevant, k)"
    by (rule prod_cases3)
  then obtain r where r: "assembleResult rt (js ''u1'') msg (exampleUser h) None = Inr r"
    by (simp add: assembleResult_def Let_def example_named)
  then show ?thesis
    by (simp add: retrieveUserContext_def retrieveUserContextTry_def findUser_def findGlobal_def
      exampleStore_def)
qed

lemma assemble_histories:
  assumes "mergeHistory rt 0 h = (recent, relevant, k)"
  shows "recentHistory (retrieveUserContext rt (exampleStore h) (js ''u1'') msg) = recent \<and>
   relevantHistory (retrieveUserContext rt (exampleStore h) (js ''u1'') msg) = relevant"
proof -
  have "historyOf (exampleUser h) = h" by (simp add: historyOf_def exampleUser_def)
  with assemble_fields[OF retrieve_example[of rt msg h]] assms show ?thesis by simp
qed

lemma merge13:
  "mergeHistory exampleRuntime 0 history13 = (sliceLast 5 history13 @ take 8 history13, take 10 history13, 0)"
  by code_simp

lemma merge6:
  "mergeHistory exampleRuntime 0 history6 = (sliceLast 5 history6 @ [exampleTurn ''a'' 1000], history6, 0)"
  by code_simp

text \<open>
  C1. With 13 stored turns and no relevance at all, the merged history is the first ten
  turns: the three most recent turns, which are in the trailing five, are cut off.
\<close>

theorem recent_turns_cut_off:
  "relevantHistory (retrieveUserContext exampleRuntime (exampleStore history13) (js ''u1'') (Some [])) = take 10 history13
   \<and> exampleTurn ''m'' 13000 \<in> set (sliceLast 5 history13)
   \<and> exampleTurn ''m'' 13000 \<notin> set (relevantHistory (retrieveUserContext exampleRuntime (exampleStore history13) (js ''u1'') (Some [])))"
proof -
  have r: "relevantHistory (retrieveUserContext exampleRuntime (exampleStore history13) (js ''u1'') (Some [])) = take 10 history13"
    using assemble_histories[OF merge13] by simp
  have "exampleTurn ''m'' 13000 \<in> set (sliceLast 5 history13)" by code_simp
  moreover have "exampleTurn ''m'' 13000 \<notin> set (take 10 history13)" by code_simp
  ultimately show ?thesis using r by simp
qed

text \<open>
  C2. With 6 stored turns the returned \<open>recentHistory\<close> holds the last five turns and,
  after them, the first turn, which the merge pushed onto the same array.
\<close>

theorem recentHistory_grows:
  "recentHistory (retrieveUserContext exampleRuntime (exampleStore history6) (js ''u1'') (Some []))
     = sliceLast 5 history6 @ [exampleTurn ''a'' 1000]
   \<and> recentHistory (retrieveUserContext exampleRuntime (exampleStore history6) (js ''u1'') (Some []))
     \<noteq> sliceLast 5 history6"
  using assemble_histories[OF merge6] by simp




text \<open>
  C4, as amended. The merged history has at most 10 turns and is sorted by the time
  value the source compares, in which a turn without a timestamp counts as time 0.
\<close>

theorem merged_bounded_and_sorted:
  "length (relevantHistory (retrieveUserContext rt db uid msg)) \<le> 10
   \<and> sorted (map sortTime (relevantHistory (retrieveUserContext rt db uid msg)))"
  using retrieve_relevant_cases[of rt db uid msg] mergeHistory_sorted[of rt 0 "storedHistory db uid"]
  by (elim disjE) simp_all

text \<open>
  C4, as stated, fails: a turn without a timestamp comes first in the merged history,
  before a turn stamped 1000, although the current instant is 99000.
\<close>

theorem missing_timestamp_sorts_first:
  "\<not> sorted (map (specSortTime (clockAt exampleRuntime 0))
       (relevantHistory (retrieveUserContext exampleRuntime
          (exampleStore [\<lparr>message = Some (js ''a''), response = Some (js ''ok''), timestamp = None\<rparr>,
                         exampleTurn ''b'' 1000]) (js ''u1'') (Some []))))"
proof -
  have "mergeHistory exampleRuntime 0
          [\<lparr>message = Some (js ''a''), response = Some (js ''ok''), timestamp = None\<rparr>,
           exampleTurn ''b'' 1000]
        = ([\<lparr>message = Some (js ''a''), response = Some (js ''ok''), timestamp = None\<rparr>,
            exampleTurn ''b'' 1000],
           [\<lparr>message = Some (js ''a''), response = Some (js ''ok''), timestamp = None\<rparr>,
            exampleTurn ''b'' 1000], Suc (Suc 0))"
    by (simp add: mergeHistory_def exampleTurn_def exampleRuntime_def sliceLast_def sliceFirst_def
        topRelevantByScore_def similarityScores_def conversationMap_def convId_def orEmpty_def
        js_def numberText_def digits.simps sortTime_def upt_rec Let_def)
  from assemble_histories[OF this] show ?thesis
    by (simp add: specSortTime_def exampleTurn_def exampleRuntime_def)
qed

section \<open>Defaults of the read path\<close>

lemma retrieve_users_down:
  "\<not> usersUp db \<Longrightarrow> retrieveUserContext rt db uid msg = minimalResult uid"
  by (simp add: retrieveUserContext_def retrieveUserContextTry_def findUser_def)

lemma retrieve_global_down:
  "usersUp db \<Longrightarrow> userDocs db uid = Some uc \<Longrightarrow> \<not> globalUp db \<Longrightarrow>
   retrieveUserContext rt db uid msg = minimalResult uid"
  by (simp add: retrieveUserContext_def retrieveUserContextTry_def findUser_def findGlobal_def)

lemma assemble_undefined_message:
  "orEmpty (username uc) = [] \<Longrightarrow> assembleResult rt uid None uc gc = Inl TypeError"
proof -
  assume n: "orEmpty (username uc) = []"
  obtain recent relevant k where
    "mergeHistory rt 0 (case conversationHistory uc of None \<Rightarrow> [] | Some h \<Rightarrow> h) = (recent, relevant, k)"
    by (rule prod_cases3)
  with n show ?thesis by (simp add: assembleResult_def Let_def usernameFor_def)
qed

lemma retrieve_undefined_message:
  "usersUp db \<Longrightarrow> userDocs db uid = Some uc \<Longrightarrow> globalUp db \<Longrightarrow> orEmpty (username uc) = [] \<Longrightarrow>
   retrieveUserContext rt db uid None = minimalResult uid"
  by (simp add: retrieveUserContext_def retrieveUserContextTry_def findUser_def findGlobal_def
      assemble_undefined_message)

lemma retrieve_failed:
  "retrieveUserContextTry rt db uid msg = Inl e \<Longrightarrow> retrieveUserContext rt db uid msg = minimalResult uid"
  by (simp add: retrieveUserContext_def)

lemma retrieve_absent:
  "usersUp db \<Longrightarrow> userDocs db uid = None \<Longrightarrow> retrieveUserContext rt db uid msg = newUserResult uid"
  by (simp add: retrieveUserContext_def retrieveUserContextTry_def findUser_def)

lemma assemble_personality_default:
  "assembleResult rt uid msg uc None = Inr r \<Longrightarrow>
   resultBotPersonality r = Some (js ''toxic, sassy, and slightly unhinged girlfriend AI'')"
proof -
  assume a: "assembleResult rt uid msg uc None = Inr r"
  obtain recent relevant k where
    m: "mergeHistory rt 0 (case conversationHistory uc of None \<Rightarrow> [] | Some h \<Rightarrow> h) = (recent, relevant, k)"
    by (rule prod_cases3)
  show ?thesis
  proof (cases "usernameFor (username uc) msg")
    case (Inl e)
    with a m show ?thesis by (simp add: assembleResult_def Let_def)
  next
    case (Inr name)
    with a m show ?thesis by (auto simp: assembleResult_def Let_def orElse_def)
  qed
qed

lemma usernameFor_succeeds:
  "orEmpty stored \<noteq> [] \<or> msg \<noteq> None \<Longrightarrow> \<not> isl (usernameFor stored msg)"
  by (cases msg) (simp_all add: usernameFor_def)

lemma assemble_succeeds:
  assumes "orEmpty (username uc) \<noteq> [] \<or> msg \<noteq> None"
  shows "\<not> isl (assembleResult rt uid msg uc gc)"
proof -
  obtain recent relevant k where
    m: "mergeHistory rt 0 (case conversationHistory uc of None \<Rightarrow> [] | Some h \<Rightarrow> h) = (recent, relevant, k)"
    by (rule prod_cases3)
  from usernameFor_succeeds[OF assms] obtain name where "usernameFor (username uc) msg = Inr name"
    by (cases "usernameFor (username uc) msg") simp_all
  with m show ?thesis by (simp add: assembleResult_def Let_def)
qed

lemma retrieve_personality_default:
  assumes "usersUp db" and "userDocs db uid = Some uc" and "globalUp db" and "globalDoc db = None"
    and "orEmpty (username uc) \<noteq> [] \<or> msg \<noteq> None"
  shows "resultBotPersonality (retrieveUserContext rt db uid msg)
           = Some (js ''toxic, sassy, and slightly unhinged girlfriend AI'')"
proof -
  from assemble_succeeds[OF assms(5), of rt uid None]
  obtain r where r: "assembleResult rt uid msg uc None = Inr r"
    by (cases "assembleResult rt uid msg uc None") simp_all
  with assms(1-4) have "retrieveUserContext rt db uid msg = r"
    by (simp add: retrieveUserContext_def retrieveUserContextTry_def findUser_def findGlobal_def)
  with assemble_personality_default[OF r] show ?thesis by simp
qed

lemma minimal_fields:
  "r = minimalResult uid \<Longrightarrow>
   infoUserId (userInfo r) = uid \<and> infoMood (userInfo r) = js ''neutral''
   \<and> relevantHistory r = [] \<and> recentHistory r = []
   \<and> resultBotPersonality r = Some (js ''friendly and helpful'')"
  by (simp add: minimalResult_def)

text \<open>
  C6, as amended. The read path always returns a result. On any failure inside it the
  result is the minimal one: mood neutral, both histories empty, personality
  \<open>friendly and helpful\<close>. That is so when the read of the user's document fails, when
  the read of the global document fails, when the message is undefined and has to be
  read, and whenever the \<open>try\<close> block ends in a failure. When the user has no
  document the result has mood neutral, both histories empty and no personality at all,
  and the global document is not read. When the user has a document, the global
  document is absent and nothing fails, the personality is the fixed default.
\<close>

theorem retrieve_defaults:
  "(\<not> usersUp db \<longrightarrow>
      infoUserId (userInfo (retrieveUserContext rt db uid msg)) = uid
      \<and> infoMood (userInfo (retrieveUserContext rt db uid msg)) = js ''neutral''
      \<and> relevantHistory (retrieveUserContext rt db uid msg) = []
      \<and> recentHistory (retrieveUserContext rt db uid msg) = []
      \<and> resultBotPersonality (retrieveUserContext rt db uid msg) = Some (js ''friendly and helpful''))
   \<and> (usersUp db \<and> userDocs db uid = Some uc \<and> \<not> globalUp db \<longrightarrow>
      infoUserId (userInfo (retrieveUserContext rt db uid msg)) = uid
      \<and> infoMood (userInfo (retrieveUserContext rt db uid msg)) = js ''neutral''
      \<and> relevantHistory (retrieveUserContext rt db uid msg) = []
      \<and> recentHistory (retrieveUserContext rt db uid msg) = []
      \<and> resultBotPersonality (retrieveUserContext rt db uid msg) = Some (js ''friendly and helpful''))
   \<and> (usersUp db \<and> userDocs db uid = Some uc \<and> globalUp db \<and> orEmpty (username uc) = [] \<longrightarrow>
      infoUserId (userInfo (retrieveUserContext rt db uid None)) = uid
      \<and> infoMood (userInfo (retrieveUserContext rt db uid None)) = js ''neutral''
      \<and> relevantHistory (retrieveUserContext rt db uid None) = []
      \<and> recentHistory (retrieveUserContext rt db uid None) = []
      \<and> resultBotPersonality (retrieveUserContext rt db uid None) = Some (js ''friendly and helpful''))
   \<and> (retrieveUserContextTry rt db uid msg = Inl e \<longrightarrow>
      infoUserId (userInfo (retrieveUserContext rt db uid msg)) = uid
      \<and> infoMood (userInfo (retrieveUserContext rt db uid msg)) = js ''neutral''
      \<and> relevantHistory (retrieveUserContext rt db uid msg) = []
      \<and> recentHistory (retrieveUserContext rt db uid msg) = []
      \<and> resultBotPersonality (retrieveUserContext rt db uid msg) = Some (js ''friendly and helpful''))
   \<and> (usersUp db \<and> userDocs db uid = None \<longrightarrow>
      infoUserId (userInfo (retrieveUserContext rt db uid msg)) = uid
      \<and> infoMood (userInfo (retrieveUserContext rt db uid msg)) = js ''neutral''
      \<and> relevantHistory (retrieveUserContext rt db uid msg) = []
      \<and> recentHistory (retrieveUserContext rt db uid msg) = []
      \<and> resultBotPersonality (retrieveUserContext rt db uid msg) = None)
   \<and> (usersUp db \<and> userDocs db uid = Some uc \<and> globalUp db \<and> globalDoc db = None
        \<and> (orEmpty (username uc) \<noteq> [] \<or> msg \<noteq> None) \<longrightarrow>
      resultBotPersonality (retrieveUserContext rt db uid msg)
        = Some (js ''toxic, sassy, and slightly unhinged girlfriend AI''))"
proof (intro conjI impI)
  assume "\<not> usersUp db"
  then have r: "retrieveUserContext rt db uid msg = minimalResult uid" by (rule retrieve_users_down)
  note f = minimal_fields[OF r]
  show "infoUserId (userInfo (retrieveUserContext rt db uid msg)) = uid" using f by simp
  show "infoMood (userInfo (retrieveUserContext rt db uid msg)) = js ''neutral''" using f by simp
  show "relevantHistory (retrieveUserContext rt db uid msg) = []" using f by simp
  show "recentHistory (retrieveUserContext rt db uid msg) = []" using f by simp
  show "resultBotPersonality (retrieveUserContext rt db uid msg) = Some (js ''friendly and helpful'')"
    using f by simp
next
  assume "usersUp db \<and> userDocs db uid = Some uc \<and> \<not> globalUp db"
  then have r: "retrieveUserContext rt db uid msg = minimalResult uid"
    using retrieve_global_down[of db uid uc rt msg] by simp
  note f = minimal_fields[OF r]
  show "infoUserId (userInfo (retrieveUserContext rt db uid msg)) = uid" using f by simp
  show "infoMood (userInfo (retrieveUserContext rt db uid msg)) = js ''neutral''" using f by simp
  show "relevantHistory (retrieveUserContext rt db uid msg) = []" using f by simp
  show "recentHistory (retrieveUserContext rt db uid msg) = []" using f by simp
  show "resultBotPersonality (retrieveUserContext rt db uid msg) = Some (js ''friendly and helpful'')"
    using f by simp
next
  assume "usersUp db \<and> userDocs db uid = Some uc \<and> globalUp db \<and> orEmpty (username uc) = []"
  then have r: "retrieveUserContext rt db uid None = minimalResult uid"
    using retrieve_undefined_message[of db uid uc rt] by simp
  note f = minimal_fields[OF r]
  show "infoUserId (userInfo (retrieveUserContext rt db uid None)) = uid" using f by simp
  show "infoMood (userInfo (retrieveUserContext rt db uid None)) = js ''neutral''" using f by simp
  show "relevantHistory (retrieveUserContext rt db uid None) = []" using f by simp
  show "recentHistory (retrieveUserContext rt db uid None) = []" using f by simp
  show "resultBotPersonality (retrieveUserContext rt db uid None) = Some (js ''friendly and helpful'')"
    using f by simp
next
  assume "retrieveUserContextTry rt db uid msg = Inl e"
  then have r: "retrieveUserContext rt db uid msg = minimalResult uid" by (rule retrieve_failed)
  note f = minimal_fields[OF r]
  show "infoUserId (userInfo (retrieveUserContext rt db uid msg)) = uid" using f by simp
  show "infoMood (userInfo (retrieveUserContext rt db uid msg)) = js ''neutral''" using f by simp
  show "relevantHistory (retrieveUserContext rt db uid msg) = []" using f by simp
  show "recentHistory (retrieveUserContext rt db uid msg) = []" using f by simp
  show "resultBotPersonality (retrieveUserContext rt db uid msg) = Some (js ''friendly and helpful'')"
    using f by simp
next
  assume "usersUp db \<and> userDocs db uid = None"
  then have r: "retrieveUserContext rt db uid msg = newUserResult uid" by (simp add: retrieve_absent)
  show "infoUserId (userInfo (retrieveUserContext rt db uid msg)) = uid"
    by (simp add: r newUserResult_def)
  show "infoMood (userInfo (retrieveUserContext rt db uid msg)) = js ''neutral''"
    by (simp add: r newUserResult_def)
  show "relevantHistory (retrieveUserContext rt db uid msg) = []"
    by (simp add: r newUserResult_def)
  show "recentHistory (retrieveUserContext rt db uid msg) = []"
    by (simp add: r newUserResult_def)
  show "resultBotPersonality (retrieveUserContext rt db uid msg) = None"
    by (simp add: r newUserResult_def)
next
  assume a: "usersUp db \<and> userDocs db uid = Some uc \<and> globalUp db \<and> globalDoc db = None
        \<and> (orEmpty (username uc) \<noteq> [] \<or> msg \<noteq> None)"
  show "resultBotPersonality (retrieveUserContext rt db uid msg)
        = Some (js ''toxic, sassy, and slightly unhinged girlfriend AI'')"
  proof (rule retrieve_personality_default)
    from a show "usersUp db" by (rule conjunct1)
    from a show "userDocs db uid = Some uc" by (elim conjE)
    from a show "globalUp db" by (elim conjE)
    from a show "globalDoc db = None" by (elim conjE)
    from a show "orEmpty (username uc) \<noteq> [] \<or> msg \<noteq> None" by (elim conjE)
  qed
qed

text \<open>
  A user stored without a username, and the stores of the cases: the users' collection
  down, the global collection down, an undefined message, a user without a document,
  and a user with a document and no global document.
\<close>

theorem retrieve_defaults_witness:
  "\<not> usersUp ((exampleStore [])\<lparr>usersUp := False\<rparr>)
   \<and> resultBotPersonality (retrieveUserContext exampleRuntime ((exampleStore [])\<lparr>usersUp := False\<rparr>) (js ''u1'') (Some []))
       = Some (js ''friendly and helpful'')
   \<and> usersUp ((exampleStore [])\<lparr>globalUp := False\<rparr>)
   \<and> userDocs ((exampleStore [])\<lparr>globalUp := False\<rparr>) (js ''u1'') = Some (exampleUser [])
   \<and> \<not> globalUp ((exampleStore [])\<lparr>globalUp := False\<rparr>)
   \<and> retrieveUserContextTry exampleRuntime ((exampleStore [])\<lparr>globalUp := False\<rparr>) (js ''u1'') (Some []) = Inl StoreUnavailable
   \<and> resultBotPersonality (retrieveUserContext exampleRuntime ((exampleStore [])\<lparr>globalUp := False\<rparr>) (js ''u1'') (Some []))
       = Some (js ''friendly and helpful'')
   \<and> recentHistory (retrieveUserContext exampleRuntime ((exampleStore [])\<lparr>globalUp := False\<rparr>) (js ''u1'') (Some [])) = []
   \<and> usersUp ((exampleStore [])\<lparr>userDocs := (\<lambda>uid. Some ((exampleUser [])\<lparr>username := None\<rparr>))\<rparr>)
   \<and> globalUp ((exampleStore [])\<lparr>userDocs := (\<lambda>uid. Some ((exampleUser [])\<lparr>username := None\<rparr>))\<rparr>)
   \<and> orEmpty (username ((exampleUser [])\<lparr>username := None\<rparr>)) = []
   \<and> resultBotPersonality (retrieveUserContext exampleRuntime
         ((exampleStore [])\<lparr>userDocs := (\<lambda>uid. Some ((exampleUser [])\<lparr>username := None\<rparr>))\<rparr>) (js ''u1'') None)
       = Some (js ''friendly and helpful'')
   \<and> usersUp (exampleStore []) \<and> userDocs (exampleStore []) (js ''u2'') = None
   \<and> infoMood (userInfo (retrieveUserContext exampleRuntime (exampleStore []) (js ''u2'') (Some []))) = js ''neutral''
   \<and> resultBotPersonality (retrieveUserContext exampleRuntime (exampleStore []) (js ''u2'') (Some [])) = None
   \<and> userDocs (exampleStore []) (js ''u1'') = Some (exampleUser []) \<and> globalUp (exampleStore [])
   \<and> globalDoc (exampleStore []) = None
   \<and> orEmpty (username (exampleUser [])) \<noteq> []
   \<and> resultBotPersonality (retrieveUserContext exampleRuntime (exampleStore []) (js ''u1'') (Some []))
       = Some (js ''toxic, sassy, and slightly unhinged girlfriend AI'')"
proof -
  let ?down = "(exampleStore [])\<lparr>usersUp := False\<rparr>"
  let ?gdown = "(exampleStore [])\<lparr>globalUp := False\<rparr>"
  let ?anon = "(exampleStore [])\<lparr>userDocs := (\<lambda>uid. Some ((exampleUser [])\<lparr>username := None\<rparr>))\<rparr>"
  have d: "\<not> usersUp ?down" by simp
  have g: "usersUp ?gdown \<and> userDocs ?gdown (js ''u1'') = Some (exampleUser []) \<and> \<not> globalUp ?gdown"
    by (simp add: exampleStore_def)
  have gt: "retrieveUserContextTry exampleRuntime ?gdown (js ''u1'') (Some []) = Inl StoreUnavailable"
    by (simp add: retrieveUserContextTry_def findUser_def findGlobal_def exampleStore_def)
  have n: "usersUp ?anon \<and> userDocs ?anon (js ''u1'') = Some ((exampleUser [])\<lparr>username := None\<rparr>)
      \<and> globalUp ?anon \<and> orEmpty (username ((exampleUser [])\<lparr>username := None\<rparr>)) = []"
    by (simp add: exampleStore_def orEmpty_def)
  have u2: "usersUp (exampleStore []) \<and> userDocs (exampleStore []) (js ''u2'') = None"
    by (simp add: exampleStore_def js_def)
  have u1: "usersUp (exampleStore []) \<and> userDocs (exampleStore []) (js ''u1'') = Some (exampleUser [])
      \<and> globalUp (exampleStore []) \<and> globalDoc (exampleStore []) = None
      \<and> orEmpty (username (exampleUser [])) \<noteq> []"
    by (simp add: exampleStore_def exampleUser_def orEmpty_def js_def)
  from retrieve_defaults[where db="?down" and rt=exampleRuntime and uid="js ''u1''" and msg="Some []"] d
  have c1: "resultBotPersonality (retrieveUserContext exampleRuntime ?down (js ''u1'') (Some []))
       = Some (js ''friendly and helpful'')" by simp
  from retrieve_defaults[where db="?gdown" and rt=exampleRuntime and uid="js ''u1''" and msg="Some []" and uc="exampleUser []"] g
  have c2: "resultBotPersonality (retrieveUserContext exampleRuntime ?gdown (js ''u1'') (Some []))
       = Some (js ''friendly and helpful'')
     \<and> recentHistory (retrieveUserContext exampleRuntime ?gdown (js ''u1'') (Some [])) = []" by simp
  from retrieve_defaults[where db="?anon" and rt=exampleRuntime and uid="js ''u1''" and uc="(exampleUser [])\<lparr>username := None\<rparr>"] n
  have c3: "resultBotPersonality (retrieveUserContext exampleRuntime ?anon (js ''u1'') None)
       = Some (js ''friendly and helpful'')" by simp
  from retrieve_defaults[where db="exampleStore []" and rt=exampleRuntime and uid="js ''u2''" and msg="Some []"] u2
  have c4: "infoMood (userInfo (retrieveUserContext exampleRuntime (exampleStore []) (js ''u2'') (Some []))) = js ''neutral''
     \<and> resultBotPersonality (retrieveUserContext exampleRuntime (exampleStore []) (js ''u2'') (Some [])) = None"
    by simp
  from retrieve_defaults[where db="exampleStore []" and rt=exampleRuntime and uid="js ''u1''" and msg="Some []" and uc="exampleUser []"] u1
  have c5: "resultBotPersonality (retrieveUserContext exampleRuntime (exampleStore []) (js ''u1'') (Some []))
       = Some (js ''toxic, sassy, and slightly unhinged girlfriend AI'')" by simp
  from d g gt n u2 u1 c1 c2 c3 c4 c5 show ?thesis by simp
qed

text \<open>
  C6, as stated, fails: for a user without a document and a store without a global
  document the result carries no personality string.
\<close>

theorem absent_user_has_no_personality:
  "userDocs (exampleStore []) (js ''u2'') = None \<and> globalDoc (exampleStore []) = None
   \<and> resultBotPersonality (retrieveUserContext exampleRuntime (exampleStore []) (js ''u2'') (Some []))
       \<noteq> Some (js ''toxic, sassy, and slightly unhinged girlfriend AI'')
   \<and> resultBotPersonality (retrieveUserContext exampleRuntime (exampleStore []) (js ''u2'') (Some []))
       \<noteq> Some (js ''friendly and helpful'')"
  by (simp add: retrieveUserContext_def retrieveUserContextTry_def findUser_def exampleStore_def
      newUserResult_def js_def)

section \<open>Extracted preferences\<close>

lemma update_entries:
  "e \<in> set (AList.update k v al) \<Longrightarrow> e \<in> set al \<or> e = (k, v)"
  by (induction al) (auto split: if_splits)

lemma trim_length: "length (trim s) \<le> length s"
proof -
  have "length (dropWhile isSpace (rev (dropWhile isSpace s))) \<le> length (rev (dropWhile isSpace s))"
    by (rule length_dropWhile_le)
  also have "\<dots> \<le> length s" by (simp add: length_dropWhile_le)
  finally show ?thesis by (simp add: trim_def)
qed

lemma addPreference_good:
  assumes inv: "list_all (\<lambda>e. goodPhrases (snd e)) prefs" and cap: "length captured \<le> 30"
  shows "list_all (\<lambda>e. goodPhrases (snd e)) (addPreference type captured prefs)"
proof -
  define prefs1 where "prefs1 = (case map_of prefs type of None \<Rightarrow> AList.update type [] prefs | Some l \<Rightarrow> prefs)"
  have inv1: "list_all (\<lambda>e. goodPhrases (snd e)) prefs1"
  proof (cases "map_of prefs type")
    case None
    have "\<And>e. e \<in> set (AList.update type [] prefs) \<Longrightarrow> goodPhrases (snd e)"
    proof -
      fix e assume "e \<in> set (AList.update type [] prefs)"
      then have "e \<in> set prefs \<or> e = (type, [])" by (rule update_entries)
      then show "goodPhrases (snd e)" using inv by (auto simp: list_all_iff goodPhrases_def)
    qed
    with None show ?thesis by (simp add: prefs1_def list_all_iff)
  next
    case (Some l)
    with inv show ?thesis by (simp add: prefs1_def)
  qed
  show ?thesis
  proof (cases "map_of prefs1 type")
    case None
    with inv1 show ?thesis by (simp add: addPreference_def prefs1_def[symmetric] Let_def)
  next
    case (Some l)
    then have "(type, l) \<in> set prefs1" by (rule map_of_SomeD)
    with inv1 have gl: "goodPhrases l" by (auto simp: list_all_iff)
    show ?thesis
    proof (cases "trim captured \<noteq> [] \<and> 2 < length (trim captured) \<and> trim captured \<notin> set l")
      case False
      with Some inv1 show ?thesis by (auto simp: addPreference_def prefs1_def[symmetric] Let_def)
    next
      case True
      have "length (trim captured) \<le> 30" using trim_length[of captured] cap by simp
      with True gl have gn: "goodPhrases (l @ [trim captured])" by (simp add: goodPhrases_def)
      have "\<And>e. e \<in> set (AList.update type (l @ [trim captured]) prefs1) \<Longrightarrow> goodPhrases (snd e)"
      proof -
        fix e assume "e \<in> set (AList.update type (l @ [trim captured]) prefs1)"
        then have "e \<in> set prefs1 \<or> e = (type, l @ [trim captured])" by (rule update_entries)
        then show "goodPhrases (snd e)" using inv1 gn by (auto simp: list_all_iff)
      qed
      then have "list_all (\<lambda>e. goodPhrases (snd e)) (AList.update type (l @ [trim captured]) prefs1)"
        by (simp add: list_all_iff)
      with True Some show ?thesis by (simp add: addPreference_def prefs1_def[symmetric] Let_def)
    qed
  qed
qed

lemma matchLoop_good:
  "list_all (\<lambda>e. goodPhrases (snd e)) prefs \<Longrightarrow>
   list_all (\<lambda>e. goodPhrases (snd e)) (matchLoop p type s prefs)"
proof (induction p type s prefs rule: matchLoop.induct)
  case (1 p type s prefs)
  show ?case
  proof (cases "search p s")
    case None
    with "1.prems" show ?thesis by (subst matchLoop.simps) simp
  next
    case (Some x)
    obtain captured rest where x: "x = (captured, rest)" by (cases x)
    with Some have f: "search p s = Some (captured, rest)" by simp
    then have "length captured \<le> 30" using search_Some[of p s captured rest] by simp
    with "1.prems" have "list_all (\<lambda>e. goodPhrases (snd e)) (addPreference type captured prefs)"
      by (rule addPreference_good)
    from "1.IH"[OF Some x[symmetric] this] show ?thesis using f by (subst matchLoop.simps) simp
  qed
qed

lemma extractPreferences_good:
  "list_all (\<lambda>e. goodPhrases (snd e)) (extractPreferences msg resp)"
  by (simp add: extractPreferences_def preferencePatterns_def Let_def matchLoop_good)

text \<open>
  C10. Every phrase that preference extraction returns has between 3 and 30 characters,
  and no phrase is twice in the list of one category.
\<close>

theorem extracted_phrases_bounded_distinct:
  "\<forall>(category, phrases) \<in> set (extractPreferences msg resp).
     (\<forall>p \<in> set phrases. 3 \<le> length p \<and> length p \<le> 30) \<and> distinct phrases"
  using extractPreferences_good[of msg resp]
  by (auto simp: list_all_iff goodPhrases_def)

lemma lazyDots_numeral:
  "lazyDots (numeral m) n k s =
     (case dotsAt n k s of Some r \<Rightarrow> Some r | None \<Rightarrow> lazyDots (pred_numeral m) (Suc n) k s)"
  by (simp add: numeral_eq_Suc)

lemmas pattern_eval = js_def lit_def dotsAt_def isLineTerminator_def isSpace_def lazyDots_numeral

lemma matchLoop_None: "search p s = None \<Longrightarrow> matchLoop p type s prefs = prefs"
  by (subst matchLoop.simps) simp

lemma matchLoop_Some:
  "search p s = Some (c, r) \<Longrightarrow>
   matchLoop p type s prefs = matchLoop p type r (addPreference type c prefs)"
  by (subst matchLoop.simps) simp

lemma lower_pizza:
  "toLowerCase (js ''I love pizza and miss my dog'' @ js '' '' @ resp)
     = js ''i love pizza and miss my dog '' @ toLowerCase resp"
  by (simp add: toLowerCase_def toLowerUnit_def js_def)

lemma search_pizza:
  "search Likes (js ''i love pizza and miss my dog '' @ rest)
     = Some (js ''pizza'', js ''and miss my dog '' @ rest)"
  by (simp add: pattern_eval)

lemma add_pizza: "addPreference (js ''likes'') (js ''pizza'') [] = [(js ''likes'', [js ''pizza''])]"
  by (simp add: addPreference_def trim_def isSpace_def js_def Let_def)

lemma extract_pizza_ok:
  "extractPreferences (js ''I love pizza and miss my dog'') (js ''ok'') = [(js ''likes'', [js ''pizza''])]"
proof -
  have t: "toLowerCase (js ''ok'') = js ''ok''" by (simp add: toLowerCase_def toLowerUnit_def js_def)
  have a: "js ''i love pizza and miss my dog '' @ js ''ok'' = js ''i love pizza and miss my dog ok''"
    by (simp add: js_def)
  have b: "js ''and miss my dog '' @ js ''ok'' = js ''and miss my dog ok''" by (simp add: js_def)
  have s1: "search Likes (js ''i love pizza and miss my dog ok'') = Some (js ''pizza'', js ''and miss my dog ok'')"
    using search_pizza[of "js ''ok''"] by (simp only: a b)
  have s2: "search Likes (js ''and miss my dog ok'') = None" by (simp add: pattern_eval)
  have s3: "search Dislikes (js ''i love pizza and miss my dog ok'') = None" by (simp add: pattern_eval)
  have s4: "search Favorites (js ''i love pizza and miss my dog ok'') = None" by (simp add: pattern_eval)
  show ?thesis
    by (simp add: extractPreferences_def preferencePatterns_def Let_def lower_pizza t a
        matchLoop_Some[OF s1] matchLoop_None[OF s2] matchLoop_None[OF s3] matchLoop_None[OF s4] add_pizza)
qed

theorem extracted_phrases_bounded_distinct_witness:
  "(js ''likes'', [js ''pizza'']) \<in> set (extractPreferences (js ''I love pizza and miss my dog'') (js ''ok''))
   \<and> 3 \<le> length (js ''pizza'') \<and> length (js ''pizza'') \<le> 30 \<and> distinct [js ''pizza'']"
proof -
  have m: "(js ''likes'', [js ''pizza'']) \<in> set (extractPreferences (js ''I love pizza and miss my dog'') (js ''ok''))"
    by (simp add: extract_pizza_ok)
  from extracted_phrases_bounded_distinct[of "js ''I love pizza and miss my dog''" "js ''ok''"] m
  have "(\<forall>p \<in> set [js ''pizza'']. 3 \<le> length p \<and> length p \<le> 30) \<and> distinct [js ''pizza'']"
    by fast
  with m show ?thesis by simp
qed

section \<open>The scenario of the specification\<close>

lemma addPreference_keeps:
  assumes "hasPhrase category phrase prefs"
  shows "hasPhrase category phrase (addPreference type captured prefs)"
proof -
  from assms obtain l where l: "map_of prefs category = Some l" "phrase \<in> set l"
    by (cases "map_of prefs category") (simp_all add: hasPhrase_def)
  show ?thesis
  proof (cases "type = category")
    case False
    with l show ?thesis
      by (simp add: addPreference_def hasPhrase_def Let_def update_conv' split: option.splits)
  next
    case True
    with l show ?thesis
      by (simp add: addPreference_def hasPhrase_def Let_def update_conv' split: option.splits)
  qed
qed

lemma matchLoop_keeps:
  "hasPhrase category phrase prefs \<Longrightarrow> hasPhrase category phrase (matchLoop p type s prefs)"
proof (induction p type s prefs rule: matchLoop.induct)
  case (1 p type s prefs)
  show ?case
  proof (cases "search p s")
    case None
    with "1.prems" show ?thesis by (simp add: matchLoop_None)
  next
    case (Some x)
    obtain captured rest where x: "x = (captured, rest)" by (cases x)
    with Some have f: "search p s = Some (captured, rest)" by simp
    from "1.prems" have "hasPhrase category phrase (addPreference type captured prefs)"
      by (rule addPreference_keeps)
    from "1.IH"[OF Some x[symmetric] this] show ?thesis by (simp add: matchLoop_Some[OF f])
  qed
qed

lemma pizza_extracted:
  "hasPhrase (js ''likes'') (js ''pizza'') (extractPreferences (js ''I love pizza and miss my dog'') resp)"
proof -
  have "hasPhrase (js ''likes'') (js ''pizza'') [(js ''likes'', [js ''pizza''])]"
    by (simp add: hasPhrase_def)
  then have "hasPhrase (js ''likes'') (js ''pizza'')
      (matchLoop Likes (js ''likes'') (js ''and miss my dog '' @ toLowerCase resp) [(js ''likes'', [js ''pizza''])])"
    by (rule matchLoop_keeps)
  then have "hasPhrase (js ''likes'') (js ''pizza'')
      (matchLoop Likes (js ''likes'') (js ''i love pizza and miss my dog '' @ toLowerCase resp) [])"
    by (simp add: matchLoop_Some[OF search_pizza] add_pizza)
  then show ?thesis
    by (simp add: extractPreferences_def preferencePatterns_def Let_def lower_pizza matchLoop_keeps)
qed

lemma mood_affectionate: "detectMood (js ''I love pizza and miss my dog'') = js ''affectionate''"
  by code_simp

lemma no_entities: "extractEntities (js ''I love pizza and miss my dog'') = []"
  by (simp add: extractEntities_def tokenize_def isTokenChar_def isWordChar_def isPotentialEntity_def
      uniq_def js_def toUpperUnit_def toLowerUnit_def commonWords_def addOnce_def)

text \<open>
  C8. For the message \<open>I love pizza and miss my dog\<close> the mood is \<open>affectionate\<close>,
  the \<open>likes\<close> of the extracted preferences hold the phrase \<open>pizza\<close> whatever the
  response is, and no entity is extracted.
\<close>

theorem pizza_scenario:
  "detectMood (js ''I love pizza and miss my dog'') = js ''affectionate''
   \<and> (\<exists>phrases. map_of (extractPreferences (js ''I love pizza and miss my dog'') resp) (js ''likes'') = Some phrases
        \<and> js ''pizza'' \<in> set phrases \<and> includesSub (js ''pizza'') (js ''pizza''))
   \<and> extractEntities (js ''I love pizza and miss my dog'') = []"
proof -
  have "\<exists>phrases. map_of (extractPreferences (js ''I love pizza and miss my dog'') resp) (js ''likes'') = Some phrases
        \<and> js ''pizza'' \<in> set phrases"
    using pizza_extracted[of resp]
    by (cases "map_of (extractPreferences (js ''I love pizza and miss my dog'') resp) (js ''likes'')")
       (simp_all add: hasPhrase_def)
  moreover have "includesSub (js ''pizza'') (js ''pizza'')" by (simp add: js_def)
  ultimately show ?thesis using mood_affectionate no_entities by simp
qed

section \<open>Writes\<close>

lemma applyUpdate_history:
  "historyOf (applyUpdate rt doc uname msg resp)
     = historyOf doc @ [\<lparr>message = Some msg, response = Some resp,
                         timestamp = Some (clockAt rt 1)\<rparr>]"
  by (simp add: applyUpdate_def historyOf_def schemaTurn_def Let_def)

lemma applyUpdate_preferences:
  "preferences (applyUpdate rt doc uname msg resp)
     = (if extractPreferences msg resp \<noteq> [] then Some (extractPreferences msg resp)
        else preferences doc)"
  by (simp add: applyUpdate_def Let_def)

lemma update_up:
  assumes "usersUp db"
  shows "updateUserContext rt db uid uname msg resp =
     Inr (applyUpdate rt (case userDocs db uid of None \<Rightarrow> freshUser uid | Some uc \<Rightarrow> uc) uname msg resp,
          db\<lparr>userDocs := (userDocs db)(uid := Some
            (if 50 < length (historyOf (applyUpdate rt (case userDocs db uid of None \<Rightarrow> freshUser uid | Some uc \<Rightarrow> uc) uname msg resp))
             then (applyUpdate rt (case userDocs db uid of None \<Rightarrow> freshUser uid | Some uc \<Rightarrow> uc) uname msg resp)
                    \<lparr>conversationHistory := Some
                       (sliceFirst 5 (historyOf (applyUpdate rt (case userDocs db uid of None \<Rightarrow> freshUser uid | Some uc \<Rightarrow> uc) uname msg resp))
                        @ sliceLast 45 (historyOf (applyUpdate rt (case userDocs db uid of None \<Rightarrow> freshUser uid | Some uc \<Rightarrow> uc) uname msg resp)))\<rparr>
             else applyUpdate rt (case userDocs db uid of None \<Rightarrow> freshUser uid | Some uc \<Rightarrow> uc) uname msg resp))\<rparr>)"
  using assms by (simp add: updateUserContext_def Let_def historyOf_def)

lemma doc_history:
  "historyOf (case userDocs db uid of None \<Rightarrow> freshUser uid | Some uc \<Rightarrow> uc) = storedHistory db uid"
  by (simp add: storedHistory_def historyOf_def freshUser_def split: option.splits)

lemma doc_preferences:
  "preferences (case userDocs db uid of None \<Rightarrow> freshUser uid | Some uc \<Rightarrow> uc) = storedPreferences db uid"
  by (simp add: storedPreferences_def freshUser_def split: option.splits)

text \<open>The turn that a write appends.\<close>

lemma update_result:
  assumes "usersUp db"
  shows "\<not> isl (updateUserContext rt db uid uname msg resp)"
    and "historyOf (fst (projr (updateUserContext rt db uid uname msg resp)))
           = storedHistory db uid @ [\<lparr>message = Some msg, response = Some resp,
                                      timestamp = Some (clockAt rt 1)\<rparr>]"
    and "storedHistory (snd (projr (updateUserContext rt db uid uname msg resp))) uid
           = (let h = historyOf (fst (projr (updateUserContext rt db uid uname msg resp)))
              in if 50 < length h then sliceFirst 5 h @ sliceLast 45 h else h)"
    and "storedPreferences (snd (projr (updateUserContext rt db uid uname msg resp))) uid
           = (if extractPreferences msg resp \<noteq> [] then Some (extractPreferences msg resp)
              else storedPreferences db uid)"
proof -
  show "\<not> isl (updateUserContext rt db uid uname msg resp)"
    by (simp add: update_up[OF assms])
  show "historyOf (fst (projr (updateUserContext rt db uid uname msg resp)))
           = storedHistory db uid @ [\<lparr>message = Some msg, response = Some resp,
                                      timestamp = Some (clockAt rt 1)\<rparr>]"
    by (simp add: update_up[OF assms] applyUpdate_history doc_history)
  show "storedHistory (snd (projr (updateUserContext rt db uid uname msg resp))) uid
           = (let h = historyOf (fst (projr (updateUserContext rt db uid uname msg resp)))
              in if 50 < length h then sliceFirst 5 h @ sliceLast 45 h else h)"
    by (simp add: update_up[OF assms] storedHistory_def Let_def) (simp add: historyOf_def)
  show "storedPreferences (snd (projr (updateUserContext rt db uid uname msg resp))) uid
           = (if extractPreferences msg resp \<noteq> [] then Some (extractPreferences msg resp)
              else storedPreferences db uid)"
    by (simp add: update_up[OF assms] storedPreferences_def applyUpdate_preferences doc_preferences)
qed

text \<open>
  C5, as amended. A write onto a stored history of 50 or more turns succeeds when the
  store is up; the stored history afterwards is the first 5 turns of the updated history
  followed by its last 45 turns, 50 turns in all. When the updated history has 51 turns
  this removes one turn only, the sixth.
\<close>

theorem retention_first5_last45:
  assumes "usersUp db" and "50 \<le> length (storedHistory db uid)"
  shows
    "(let updated = historyOf (fst (projr (updateUserContext rt db uid uname msg resp)));
          stored = storedHistory (snd (projr (updateUserContext rt db uid uname msg resp))) uid
      in \<not> isl (updateUserContext rt db uid uname msg resp)
         \<and> updated = storedHistory db uid @ [\<lparr>message = Some msg, response = Some resp,
               timestamp = Some (clockAt rt 1)\<rparr>]
         \<and> stored = take 5 updated @ drop (length updated - 45) updated
         \<and> length stored = 50
         \<and> (length updated = 51 \<longrightarrow> stored = take 5 updated @ drop 6 updated))"
proof -
  let ?u = "updateUserContext rt db uid uname msg resp"
  let ?h = "historyOf (fst (projr ?u))"
  have h: "?h = storedHistory db uid @ [\<lparr>message = Some msg, response = Some resp,
               timestamp = Some (clockAt rt 1)\<rparr>]"
    by (rule update_result(2)[OF assms(1)])
  with assms(2) have long: "50 < length ?h" by simp
  have st: "storedHistory (snd (projr ?u)) uid = take 5 ?h @ drop (length ?h - 45) ?h"
    using update_result(3)[OF assms(1), of rt uid uname msg resp] long
    by (simp add: Let_def sliceFirst_def sliceLast_def)
  have len: "length (take 5 ?h @ drop (length ?h - 45) ?h) = 50" using long by simp
  have "length ?h = 51 \<Longrightarrow> drop (length ?h - 45) ?h = drop 6 ?h" by simp
  with h st len update_result(1)[OF assms(1), of rt uid uname msg resp] show ?thesis
    by (simp add: Let_def)
qed

lemma stored50: "storedHistory (exampleStore history50) (js ''u1'') = history50"
  by (simp add: storedHistory_def exampleStore_def historyOf_def exampleUser_def)

lemma length50: "length history50 = 50"
  by (simp add: history50_def)

lemma exampleWrite_history:
  "historyOf (fst (projr exampleWrite))
     = history50 @ [\<lparr>message = Some (js ''hello''), response = Some (js ''hi''),
                      timestamp = Some (clockAt exampleRuntime 1)\<rparr>]"
proof -
  have up: "usersUp (exampleStore history50)" by (simp add: exampleStore_def)
  show ?thesis
    using update_result(2)[OF up, of exampleRuntime "js ''u1''" "js ''Ann''" "js ''hello''" "js ''hi''"]
    by (simp add: stored50 exampleWrite_def)
qed

lemma exampleWrite_length: "length (historyOf (fst (projr exampleWrite))) = 51"
  by (simp add: exampleWrite_history length50)

text \<open>The write of the example: 50 stored turns, 51 after the write, 50 kept.\<close>

theorem retention_first5_last45_witness:
  "usersUp (exampleStore history50)
   \<and> 50 \<le> length (storedHistory (exampleStore history50) (js ''u1''))
   \<and> \<not> isl exampleWrite
   \<and> length (historyOf (fst (projr exampleWrite))) = 51
   \<and> storedHistory (snd (projr exampleWrite)) (js ''u1'')
       = take 5 (historyOf (fst (projr exampleWrite))) @ drop 6 (historyOf (fst (projr exampleWrite)))
   \<and> length (storedHistory (snd (projr exampleWrite)) (js ''u1'')) = 50"
proof -
  have a: "usersUp (exampleStore history50)" by (simp add: exampleStore_def)
  have b: "50 \<le> length (storedHistory (exampleStore history50) (js ''u1''))"
    by (simp add: stored50 length50)
  note t = retention_first5_last45[OF a b, of exampleRuntime "js ''Ann''" "js ''hello''" "js ''hi''",
      unfolded Let_def, folded exampleWrite_def]
  have c: "\<not> isl exampleWrite" by (rule t[THEN conjunct1])
  have d: "length (storedHistory (snd (projr exampleWrite)) (js ''u1'')) = 50"
    by (rule t[THEN conjunct2, THEN conjunct2, THEN conjunct2, THEN conjunct1])
  have e: "storedHistory (snd (projr exampleWrite)) (js ''u1'')
       = take 5 (historyOf (fst (projr exampleWrite))) @ drop 6 (historyOf (fst (projr exampleWrite)))"
    by (rule t[THEN conjunct2, THEN conjunct2, THEN conjunct2, THEN conjunct2, THEN mp, OF exampleWrite_length])
  from a b c exampleWrite_length e d show ?thesis by (intro conjI)
qed

text \<open>
  C5, as stated, fails: after the write that makes 51 turns, the six turns after the
  first five are not all removed. Turn number 6 is one of them and is still stored, and
  the stored history is not the first 5 turns followed by the turns from the twelfth on.
\<close>

theorem retention_removes_one_turn:
  "length (historyOf (fst (projr exampleWrite))) = 51
   \<and> numberedTurn 6 \<in> set (take 6 (drop 5 (historyOf (fst (projr exampleWrite)))))
   \<and> numberedTurn 6 \<in> set (storedHistory (snd (projr exampleWrite)) (js ''u1''))
   \<and> storedHistory (snd (projr exampleWrite)) (js ''u1'')
       \<noteq> take 5 (historyOf (fst (projr exampleWrite))) @ drop 11 (historyOf (fst (projr exampleWrite)))"
proof -
  let ?h = "historyOf (fst (projr exampleWrite))"
  have up: "usersUp (exampleStore history50)" by (simp add: exampleStore_def)
  have st: "storedHistory (snd (projr exampleWrite)) (js ''u1'') = take 5 ?h @ drop 6 ?h"
    using update_result(3)[OF up, of exampleRuntime "js ''u1''" "js ''Ann''" "js ''hello''" "js ''hi''"]
      exampleWrite_length
    by (simp add: Let_def sliceFirst_def sliceLast_def exampleWrite_def)
  have six: "drop 6 history50 = numberedTurn 6 # drop 7 history50"
    by (simp add: history50_def drop_map upt_rec[of 6 50])
  have five: "take 6 (drop 5 history50) = map numberedTurn [5 ..< 11]"
    by (simp add: history50_def drop_map take_map)
  have in_six: "numberedTurn 6 \<in> set (take 6 (drop 5 ?h))"
    by (simp add: exampleWrite_history length50 five)
  have in_stored: "numberedTurn 6 \<in> set (storedHistory (snd (projr exampleWrite)) (js ''u1''))"
    by (simp add: st exampleWrite_history length50 six)
  have "length (storedHistory (snd (projr exampleWrite)) (js ''u1'')) \<noteq> length (take 5 ?h @ drop 11 ?h)"
    by (simp add: st exampleWrite_length)
  then have ne: "storedHistory (snd (projr exampleWrite)) (js ''u1'') \<noteq> take 5 ?h @ drop 11 ?h" by metis
  from exampleWrite_length in_six in_stored ne show ?thesis by (intro conjI)
qed

lemma extract_empty_likes:
  "extractPreferences (js ''i love u  !'') (js ''ok'') = [(js ''likes'', [])]"
proof -
  have t: "toLowerCase (js ''i love u  !'' @ js '' '' @ js ''ok'') = js ''i love u  ! ok''"
    by (simp add: toLowerCase_def toLowerUnit_def js_def)
  have s1: "search Likes (js ''i love u  ! ok'') = Some (js ''u  '', js '' ok'')"
    by (simp add: pattern_eval)
  have s2: "search Likes (js '' ok'') = None" by (simp add: pattern_eval)
  have s3: "search Dislikes (js ''i love u  ! ok'') = None" by (simp add: pattern_eval)
  have s4: "search Favorites (js ''i love u  ! ok'') = None" by (simp add: pattern_eval)
  have a: "addPreference (js ''likes'') (js ''u  '') [] = [(js ''likes'', [])]"
    by (simp add: addPreference_def trim_def isSpace_def js_def Let_def)
  show ?thesis
    by (simp add: extractPreferences_def preferencePatterns_def Let_def t
        matchLoop_Some[OF s1] matchLoop_None[OF s2] matchLoop_None[OF s3] matchLoop_None[OF s4] a)
qed

text \<open>
  C7. The message \<open>i love u  !\<close> matches the first pattern, but the capture, trimmed, is
  the one character \<open>u\<close> and is not kept: no preference is extracted. The extracted
  object still has the key \<open>likes\<close>, with an empty list, and it replaces the stored
  preferences, which held \<open>pizza\<close>.
\<close>

theorem empty_extraction_overwrites:
  "storedPreferences (exampleStore []) (js ''u1'') = Some [(js ''likes'', [js ''pizza''])]
   \<and> extractPreferences (js ''i love u  !'') (js ''ok'') = [(js ''likes'', [])]
   \<and> storedPreferences
         (snd (projr (updateUserContext exampleRuntime (exampleStore []) (js ''u1'') (js ''Ann'')
                        (js ''i love u  !'') (js ''ok'')))) (js ''u1'')
       = Some [(js ''likes'', [])]"
proof -
  have up: "usersUp (exampleStore [])" by (simp add: exampleStore_def)
  have before: "storedPreferences (exampleStore []) (js ''u1'') = Some [(js ''likes'', [js ''pizza''])]"
    by (simp add: storedPreferences_def exampleStore_def exampleUser_def)
  have after: "storedPreferences
         (snd (projr (updateUserContext exampleRuntime (exampleStore []) (js ''u1'') (js ''Ann'')
                        (js ''i love u  !'') (js ''ok'')))) (js ''u1'')
       = Some [(js ''likes'', [])]"
    by (simp add: update_result(4)[OF up] extract_empty_likes)
  from before extract_empty_likes after show ?thesis by (intro conjI)
qed

section \<open>The window of global topics\<close>








end
